theory Spec2Isabelle
  imports Complex_Main
begin

section \<open>JavaScript values\<close>

text \<open>
  Strings are byte strings: a JavaScript string is represented by its UTF-8 encoding, so
  the Japanese message literals of \<open>index.ts\<close> appear as their bytes.

  A JavaScript number is a double: a finite value (a rational), one of the two infinities,
  or NaN. Comparison of finite doubles is comparison of the rationals they denote.
\<close>

datatype jsnum = Fin rat | PosInf | NegInf | NaN

datatype jsval =
    VUndefined
  | VNull
  | VBool bool
  | VNum jsnum
  | VStr string
  | VArr "jsval list"
  | VObj "(string \<times> jsval) list"

text \<open>ToBoolean on a number: zero and NaN are falsy.\<close>

fun num_truthy :: "jsnum \<Rightarrow> bool" where
  "num_truthy (Fin r) = (r \<noteq> 0)"
| "num_truthy PosInf = True"
| "num_truthy NegInf = True"
| "num_truthy NaN = False"

text \<open>The relational operator \<open>a > b\<close> on numbers: every comparison with NaN is false.\<close>

fun js_gt :: "jsnum \<Rightarrow> jsnum \<Rightarrow> bool" where
  "js_gt (Fin a) (Fin b) = (b < a)"
| "js_gt (Fin a) NegInf = True"
| "js_gt PosInf (Fin b) = True"
| "js_gt PosInf NegInf = True"
| "js_gt _ _ = False"

text \<open>\<open>a <= b\<close> on numbers: false as soon as NaN is involved, else the negation of \<open>a > b\<close>.\<close>

definition js_le :: "jsnum \<Rightarrow> jsnum \<Rightarrow> bool" where
  "js_le a b = (a \<noteq> NaN \<and> b \<noteq> NaN \<and> \<not> js_gt a b)"

text \<open>
  \<open>Number.prototype.toString\<close>. The digits of a finite double are the platform's
  shortest round-trip representation; they are taken as the parameter \<open>ns\<close>.
\<close>

fun number_toString :: "(rat \<Rightarrow> string) \<Rightarrow> jsnum \<Rightarrow> string" where
  "number_toString ns (Fin r) = ns r"
| "number_toString ns PosInf = ''Infinity''"
| "number_toString ns NegInf = ''-Infinity''"
| "number_toString ns NaN = ''NaN''"

text \<open>Decimal digits of a natural number, as a template literal prints an integer.\<close>

fun nat_toString :: "nat \<Rightarrow> string" where
  "nat_toString n =
     (if n < 10 then [char_of (48 + n)]
      else nat_toString (n div 10) @ [char_of (48 + n mod 10)])"

declare nat_toString.simps [simp del]

text \<open>Decimal digits of an integral rational: what \<open>toString\<close> gives on an
  integer-valued double below \<open>10^21\<close> in magnitude.\<close>

definition int_digits :: "rat \<Rightarrow> string" where
  "int_digits r =
     (if r < 0 then CHR ''-'' # nat_toString (nat (- \<lfloor>r\<rfloor>)) else nat_toString (nat \<lfloor>r\<rfloor>))"

text \<open>
  The decimal expansion of a rational, cut after twenty places: what \<open>toString\<close> gives on
  a double of magnitude below \<open>10^21\<close> and not below \<open>10^-6\<close> whose expansion has at most
  fifteen significant digits, such as \<open>2.5\<close>, \<open>-0.75\<close> or an integer.
\<close>

fun frac_digits :: "nat \<Rightarrow> rat \<Rightarrow> string" where
  "frac_digits 0 f = []"
| "frac_digits (Suc k) f =
     (if f = 0 then []
      else char_of (48 + nat \<lfloor>f * 10\<rfloor>) # frac_digits k (f * 10 - of_int \<lfloor>f * 10\<rfloor>))"

definition decimal_digits :: "rat \<Rightarrow> string" where
  "decimal_digits r =
     (if r < 0 then ''-'' else []) @ nat_toString (nat \<lfloor>\<bar>r\<bar>\<rfloor>)
     @ (if \<bar>r\<bar> = of_int \<lfloor>\<bar>r\<bar>\<rfloor> then []
        else CHR ''.'' # frac_digits 20 (\<bar>r\<bar> - of_int \<lfloor>\<bar>r\<bar>\<rfloor>))"

section \<open>Configuration\<close>

record config =
  DOCBASE_TOKEN :: string
  DOCBASE_DOMAIN :: string

definition BASE_URL :: string where
  "BASE_URL = ''https://api.docbase.io''"

section \<open>The URL constructor\<close>

text \<open>
  \<open>new URL(input, BASE_URL)\<close> follows the WHATWG URL parser. Both templates of the client
  start with the literal \<open>/teams/\<close>, so after the clean-up of the input the parser passes
  through its relative states, keeps scheme and host of the base, and reads everything
  behind the leading slash in the path state. A \<open>?\<close> opens the query, a \<open>#\<close> the
  fragment; the fragment is not part of a request and is dropped here.
\<close>

definition is_c0_or_space :: "char \<Rightarrow> bool" where
  "is_c0_or_space c = ((of_char c :: nat) \<le> 0x20)"

definition is_tab_or_newline :: "char \<Rightarrow> bool" where
  "is_tab_or_newline c = (c = CHR 0x09 \<or> c = CHR 0x0A \<or> c = CHR 0x0D)"

definition strip_c0_or_space :: "string \<Rightarrow> string" where
  "strip_c0_or_space s = rev (dropWhile is_c0_or_space (rev (dropWhile is_c0_or_space s)))"

definition hex_upper :: "nat \<Rightarrow> char" where
  "hex_upper n = ''0123456789ABCDEF'' ! (n mod 16)"

definition percent_encode_byte :: "char \<Rightarrow> string" where
  "percent_encode_byte c =
     [CHR ''%'', hex_upper ((of_char c :: nat) div 16), hex_upper ((of_char c :: nat) mod 16)]"

definition in_c0_control_set :: "char \<Rightarrow> bool" where
  "in_c0_control_set c = ((of_char c :: nat) < 0x20 \<or> (of_char c :: nat) > 0x7E)"

definition in_query_set :: "char \<Rightarrow> bool" where
  "in_query_set c =
     (in_c0_control_set c \<or> c = CHR 0x20 \<or> c = CHR 0x22 \<or> c = CHR ''#'' \<or> c = CHR ''<''
      \<or> c = CHR ''>'')"

definition in_special_query_set :: "char \<Rightarrow> bool" where
  "in_special_query_set c = (in_query_set c \<or> c = CHR 0x27)"

text \<open>
  The path percent-encode set as Node 22 has it. Later revisions of the URL Standard add the
  caret to it; nothing below depends on what becomes of a caret.
\<close>

definition in_path_set :: "char \<Rightarrow> bool" where
  "in_path_set c =
     (in_query_set c \<or> c = CHR ''?'' \<or> c = CHR 0x60 \<or> c = CHR ''{'' \<or> c = CHR ''}'')"

definition percent_encode :: "(char \<Rightarrow> bool) \<Rightarrow> char \<Rightarrow> string" where
  "percent_encode encode_set c = (if encode_set c then percent_encode_byte c else [c])"

definition is_single_dot :: "string \<Rightarrow> bool" where
  "is_single_dot s = (s = ''.'' \<or> s = ''%2e'' \<or> s = ''%2E'')"

definition is_double_dot :: "string \<Rightarrow> bool" where
  "is_double_dot s =
     (s = ''..'' \<or> s = ''.%2e'' \<or> s = ''.%2E'' \<or> s = ''%2e.'' \<or> s = ''%2E.''
      \<or> s = ''%2e%2e'' \<or> s = ''%2e%2E'' \<or> s = ''%2E%2e'' \<or> s = ''%2E%2E'')"

text \<open>
  The end of a path segment. \<open>slash\<close> says whether the segment was ended by a slash
  (or backslash) rather than by \<open>?\<close>, \<open>#\<close> or the end of the input.
\<close>

definition close_segment :: "string \<Rightarrow> string list \<Rightarrow> bool \<Rightarrow> string list" where
  "close_segment buf path slash =
     (if is_double_dot buf then (if slash then butlast path else butlast path @ [[]])
      else if is_single_dot buf then (if slash then path else path @ [[]])
      else path @ [buf])"

fun query_state :: "string \<Rightarrow> string \<Rightarrow> string" where
  "query_state buf [] = buf"
| "query_state buf (c # cs) =
     (if c = CHR ''#'' then buf
      else query_state (buf @ percent_encode in_special_query_set c) cs)"

fun path_state :: "string \<Rightarrow> string list \<Rightarrow> string \<Rightarrow> string list \<times> string option" where
  "path_state buf path [] = (close_segment buf path False, None)"
| "path_state buf path (c # cs) =
     (if c = CHR ''/'' \<or> c = CHR 0x5C then path_state [] (close_segment buf path True) cs
      else if c = CHR ''?'' then (close_segment buf path False, Some (query_state [] cs))
      else if c = CHR ''#'' then (close_segment buf path False, None)
      else path_state (buf @ percent_encode in_path_set c) path cs)"

definition serialize_path :: "string list \<Rightarrow> string" where
  "serialize_path path = concat (map (\<lambda>seg. CHR ''/'' # seg) path)"

record url =
  url_origin :: string
  url_pathname :: string
  url_query :: "string option"
  url_searchParams :: "(string \<times> string) list"

text \<open>
  \<open>url_query\<close> is the query that the constructor read out of its input (\<open>None\<close> when the
  input has none); \<open>url_searchParams\<close> are the pairs appended afterwards. The query string of
  the request is made of both.
\<close>

definition new_URL :: "string \<Rightarrow> string \<Rightarrow> url" where
  "new_URL input base =
     (let cleaned = filter (\<lambda>c. \<not> is_tab_or_newline c) (strip_c0_or_space input);
          parsed = path_state [] [] (drop 1 cleaned)
      in \<lparr>url_origin = base, url_pathname = serialize_path (fst parsed),
          url_query = snd parsed, url_searchParams = []\<rparr>)"

definition searchParams_append :: "string \<Rightarrow> string \<Rightarrow> url \<Rightarrow> url" where
  "searchParams_append name v u = u\<lparr>url_searchParams := url_searchParams u @ [(name, v)]\<rparr>"

text \<open>The value of the first appended pair with that name.\<close>

definition appended_param :: "string \<Rightarrow> url \<Rightarrow> string option" where
  "appended_param name u = map_of (url_searchParams u) name"

section \<open>The DocBase client\<close>

record request =
  req_method :: string
  req_url :: url
  req_headers :: "(string \<times> string) list"

definition headers :: "config \<Rightarrow> (string \<times> string) list" where
  "headers cfg =
     [(''X-DocBaseToken'', DOCBASE_TOKEN cfg), (''Content-Type'', ''application/json'')]"

text \<open>\<open>fetch(url, { headers })\<close> sends a GET.\<close>

definition fetch_request :: "url \<Rightarrow> (string \<times> string) list \<Rightarrow> request" where
  "fetch_request u hs = \<lparr>req_method = ''GET'', req_url = u, req_headers = hs\<rparr>"

text \<open>
  The request of \<open>client.searchMemos(query, page, perPage)\<close>; an argument that is
  \<open>undefined\<close> (\<open>None\<close>) takes the default of the parameter list, \<open>page = 1\<close> and
  \<open>perPage = 20\<close>.
\<close>

definition searchMemos_request ::
  "(rat \<Rightarrow> string) \<Rightarrow> config \<Rightarrow> string \<Rightarrow> jsnum option \<Rightarrow> jsnum option \<Rightarrow> request" where
  "searchMemos_request ns cfg q page perPage =
     (let page' = (case page of None \<Rightarrow> Fin 1 | Some p \<Rightarrow> p);
          perPage' = (case perPage of None \<Rightarrow> Fin 20 | Some p \<Rightarrow> p);
          u0 = new_URL (''/teams/'' @ DOCBASE_DOMAIN cfg @ ''/posts'') BASE_URL;
          u1 = searchParams_append ''q'' q u0;
          u2 = searchParams_append ''page'' (number_toString ns page') u1;
          u3 = searchParams_append ''per_page'' (number_toString ns perPage') u2
      in fetch_request u3 (headers cfg))"

definition getMemo_request :: "config \<Rightarrow> string \<Rightarrow> request" where
  "getMemo_request cfg ident =
     fetch_request (new_URL (''/teams/'' @ DOCBASE_DOMAIN cfg @ ''/posts/'' @ ident) BASE_URL)
       (headers cfg)"

text \<open>
  The clamp of the handler:
  \<open>const limitedPerPage = perPage && perPage > 100 ? 100 : perPage\<close>.
\<close>

definition limitedPerPage :: "jsnum option \<Rightarrow> jsnum option" where
  "limitedPerPage perPage =
     (if (case perPage of None \<Rightarrow> False | Some p \<Rightarrow> num_truthy p \<and> js_gt p (Fin 100))
      then Some (Fin 100) else perPage)"

text \<open>The request that the \<open>searchMemos\<close> handler causes.\<close>

definition searchMemos_handler_request ::
  "(rat \<Rightarrow> string) \<Rightarrow> config \<Rightarrow> string \<Rightarrow> jsnum option \<Rightarrow> jsnum option \<Rightarrow> request" where
  "searchMemos_handler_request ns cfg q page perPage =
     searchMemos_request ns cfg q page (limitedPerPage perPage)"

section \<open>Thrown values and the upstream\<close>

text \<open>
  A thrown value is an \<open>Error\<close> instance with its name and message, a \<open>TypeError\<close> raised
  by the engine itself (reading a property of \<open>null\<close> or \<open>undefined\<close>, calling something
  that is no function; an \<open>Error\<close> instance whose message is the engine's wording), or any
  value that is no \<open>Error\<close> instance.
\<close>

datatype thrown = ErrorObject string string | EngineTypeError | NonError jsval

fun instanceof_Error :: "thrown \<Rightarrow> bool" where
  "instanceof_Error (ErrorObject name msg) = True"
| "instanceof_Error EngineTypeError = True"
| "instanceof_Error (NonError v) = False"

text \<open>
  A response carries its status line and what \<open>response.json()\<close> gives: the parsed body,
  or the value it rejects with. \<open>fetch\<close> itself either rejects or resolves to a response.
\<close>

record response =
  resp_status :: nat
  resp_statusText :: string
  resp_json :: "thrown + jsval"

datatype fetch_outcome = Rejected thrown | Resolved response

text \<open>\<open>response.ok\<close>: the status is in the range 200 to 299.\<close>

definition response_ok :: "response \<Rightarrow> bool" where
  "response_ok r = (200 \<le> resp_status r \<and> resp_status r \<le> 299)"

text \<open>The literal \<open>API...: \<close> that opens the message of a request error, in UTF-8.\<close>

definition api_error_prefix :: string where
  "api_error_prefix =
     [
      CHR 0x41, CHR 0x50, CHR 0x49, CHR 0xE3, CHR 0x83, CHR 0xAA, CHR 0xE3, CHR 0x82,
      CHR 0xAF, CHR 0xE3, CHR 0x82, CHR 0xA8, CHR 0xE3, CHR 0x82, CHR 0xB9, CHR 0xE3,
      CHR 0x83, CHR 0x88, CHR 0xE3, CHR 0x82, CHR 0xA8, CHR 0xE3, CHR 0x83, CHR 0xA9,
      CHR 0xE3, CHR 0x83, CHR 0xBC, CHR 0x3A, CHR 0x20]"

definition api_error_message :: "response \<Rightarrow> string" where
  "api_error_message r =
     api_error_prefix @ nat_toString (resp_status r) @ '' '' @ resp_statusText r"

text \<open>The message of the error that replaces a thrown value that is no \<open>Error\<close>, in UTF-8.\<close>

definition unknown_error_message :: string where
  "unknown_error_message =
     [
      CHR 0xE4, CHR 0xB8, CHR 0x8D, CHR 0xE6, CHR 0x98, CHR 0x8E, CHR 0xE3, CHR 0x81,
      CHR 0xAA, CHR 0xE3, CHR 0x82, CHR 0xA8, CHR 0xE3, CHR 0x83, CHR 0xA9, CHR 0xE3,
      CHR 0x83, CHR 0xBC, CHR 0xE3, CHR 0x81, CHR 0x8C, CHR 0xE7, CHR 0x99, CHR 0xBA,
      CHR 0xE7, CHR 0x94, CHR 0x9F, CHR 0xE3, CHR 0x81, CHR 0x97, CHR 0xE3, CHR 0x81,
      CHR 0xBE, CHR 0xE3, CHR 0x81, CHR 0x97, CHR 0xE3, CHR 0x81, CHR 0x9F]"

definition try_bind :: "thrown + 'a \<Rightarrow> ('a \<Rightarrow> thrown + 'b) \<Rightarrow> thrown + 'b" where
  "try_bind m f = (case m of Inl e \<Rightarrow> Inl e | Inr v \<Rightarrow> f v)"

definition client_searchMemos ::
  "(rat \<Rightarrow> string) \<Rightarrow> config \<Rightarrow> (request \<Rightarrow> fetch_outcome) \<Rightarrow> string \<Rightarrow> jsnum option
     \<Rightarrow> jsnum option \<Rightarrow> thrown + jsval" where
  "client_searchMemos ns cfg fetch q page perPage =
     (case fetch (searchMemos_request ns cfg q page perPage) of
        Rejected e \<Rightarrow> Inl e
      | Resolved r \<Rightarrow>
          if \<not> response_ok r then Inl (ErrorObject ''Error'' (api_error_message r))
          else resp_json r)"

definition client_getMemo ::
  "config \<Rightarrow> (request \<Rightarrow> fetch_outcome) \<Rightarrow> string \<Rightarrow> thrown + jsval" where
  "client_getMemo cfg fetch ident =
     (case fetch (getMemo_request cfg ident) of
        Rejected e \<Rightarrow> Inl e
      | Resolved r \<Rightarrow>
          if \<not> response_ok r then Inl (ErrorObject ''Error'' (api_error_message r))
          else resp_json r)"

section \<open>Property access on untyped JSON\<close>

text \<open>
  \<open>v.name\<close> for the property names that the handlers read (\<open>posts\<close>, \<open>meta\<close>, \<open>id\<close>,
  \<open>name\<close> and so on): a \<open>TypeError\<close> on \<open>null\<close> and \<open>undefined\<close>, the own property of an
  object, and \<open>undefined\<close> where there is none. None of these names is a property that
  strings, numbers, booleans or arrays inherit.
\<close>

fun js_get :: "jsval \<Rightarrow> string \<Rightarrow> thrown + jsval" where
  "js_get VUndefined name = Inl EngineTypeError"
| "js_get VNull name = Inl EngineTypeError"
| "js_get (VObj props) name =
     Inr (case map_of props name of None \<Rightarrow> VUndefined | Some v \<Rightarrow> v)"
| "js_get v name = Inr VUndefined"

text \<open>\<open>Array.prototype.map\<close> with a callback that may throw: the first throw ends it.\<close>

fun map_throwing :: "('a \<Rightarrow> thrown + 'b) \<Rightarrow> 'a list \<Rightarrow> thrown + 'b list" where
  "map_throwing f [] = Inr []"
| "map_throwing f (x # xs) =
     try_bind (f x) (\<lambda>y. try_bind (map_throwing f xs) (\<lambda>ys. Inr (y # ys)))"

text \<open>
  \<open>v.map(f)\<close>: only an array has a callable \<open>map\<close>. On JSON data every other value either
  has no such property or one that is no function, and the call is a \<open>TypeError\<close>.
\<close>

fun js_map :: "(jsval \<Rightarrow> thrown + jsval) \<Rightarrow> jsval \<Rightarrow> thrown + jsval list" where
  "js_map f (VArr xs) = map_throwing f xs"
| "js_map f v = Inl EngineTypeError"

section \<open>\<open>JSON.stringify(value, null, 2)\<close>\<close>

definition hex_lower :: "nat \<Rightarrow> char" where
  "hex_lower n = ''0123456789abcdef'' ! (n mod 16)"

definition quote_char :: "char \<Rightarrow> string" where
  "quote_char c =
     (if c = CHR 0x08 then [CHR 0x5C, CHR ''b'']
      else if c = CHR 0x09 then [CHR 0x5C, CHR ''t'']
      else if c = CHR 0x0A then [CHR 0x5C, CHR ''n'']
      else if c = CHR 0x0C then [CHR 0x5C, CHR ''f'']
      else if c = CHR 0x0D then [CHR 0x5C, CHR ''r'']
      else if c = CHR 0x22 then [CHR 0x5C, CHR 0x22]
      else if c = CHR 0x5C then [CHR 0x5C, CHR 0x5C]
      else if (of_char c :: nat) < 0x20
        then [CHR 0x5C, CHR ''u'', CHR ''0'', CHR ''0'',
              hex_lower ((of_char c :: nat) div 16), hex_lower ((of_char c :: nat) mod 16)]
      else [c])"

definition quote_JSON_string :: "string \<Rightarrow> string" where
  "quote_JSON_string s = CHR 0x22 # concat (map quote_char s) @ [CHR 0x22]"

definition gap :: string where
  "gap = ''  ''"

fun join :: "string \<Rightarrow> string list \<Rightarrow> string" where
  "join sep [] = []"
| "join sep [x] = x"
| "join sep (x # y # ys) = x @ sep @ join sep (y # ys)"

text \<open>
  The text of an object or an array from the texts of its members; \<open>stepback\<close> is the
  indentation of the enclosing level.
\<close>

definition object_text :: "string \<Rightarrow> string list \<Rightarrow> string" where
  "object_text stepback members =
     (if members = [] then ''{}''
      else ''{'' @ [CHR 0x0A] @ stepback @ gap
           @ join ('','' @ [CHR 0x0A] @ stepback @ gap) members
           @ [CHR 0x0A] @ stepback @ ''}'')"

definition array_text :: "string \<Rightarrow> string list \<Rightarrow> string" where
  "array_text stepback elements =
     (if elements = [] then ''[]''
      else ''['' @ [CHR 0x0A] @ stepback @ gap
           @ join ('','' @ [CHR 0x0A] @ stepback @ gap) elements
           @ [CHR 0x0A] @ stepback @ '']'')"

text \<open>
  \<open>SerializeJSONProperty\<close>: \<open>None\<close> is the result \<open>undefined\<close>. A property whose value
  is \<open>undefined\<close> is left out of an object; in an array it is written \<open>null\<close>. A number that
  is not finite is written \<open>null\<close>.
\<close>

fun serialize_JSON :: "(rat \<Rightarrow> string) \<Rightarrow> string \<Rightarrow> jsval \<Rightarrow> string option" where
  "serialize_JSON ns indent VUndefined = None"
| "serialize_JSON ns indent VNull = Some ''null''"
| "serialize_JSON ns indent (VBool b) = Some (if b then ''true'' else ''false'')"
| "serialize_JSON ns indent (VNum n) = Some (case n of Fin r \<Rightarrow> ns r | _ \<Rightarrow> ''null'')"
| "serialize_JSON ns indent (VStr s) = Some (quote_JSON_string s)"
| "serialize_JSON ns indent (VArr xs) =
     Some (array_text indent
       (map (\<lambda>x. case serialize_JSON ns (indent @ gap) x of None \<Rightarrow> ''null'' | Some t \<Rightarrow> t) xs))"
| "serialize_JSON ns indent (VObj props) =
     Some (object_text indent
       (concat (map (\<lambda>(k, v). case serialize_JSON ns (indent @ gap) v of
                                 None \<Rightarrow> []
                               | Some t \<Rightarrow> [quote_JSON_string k @ '': '' @ t]) props)))"

text \<open>
  \<open>JSON.stringify\<close> of an object literal with the given properties, indented by two
  spaces: always a string.
\<close>

definition member_texts :: "(rat \<Rightarrow> string) \<Rightarrow> string \<Rightarrow> (string \<times> jsval) list \<Rightarrow> string list" where
  "member_texts ns indent props =
     concat (map (\<lambda>(k, v). case serialize_JSON ns indent v of
                             None \<Rightarrow> []
                           | Some t \<Rightarrow> [quote_JSON_string k @ '': '' @ t]) props)"

definition JSON_stringify_object :: "(rat \<Rightarrow> string) \<Rightarrow> (string \<times> jsval) list \<Rightarrow> string" where
  "JSON_stringify_object ns props = object_text [] (member_texts ns gap props)"

section \<open>The tool handlers\<close>

record text_content =
  content_type :: string
  content_text :: string

record tool_result =
  content :: "text_content list"

text \<open>The \<open>catch\<close> block of both handlers.\<close>

definition rethrow :: "thrown + 'a \<Rightarrow> thrown + 'a" where
  "rethrow res =
     (case res of
        Inl e \<Rightarrow> Inl (if instanceof_Error e then e else ErrorObject ''Error'' unknown_error_message)
      | Inr v \<Rightarrow> Inr v)"

definition project_post :: "jsval \<Rightarrow> thrown + jsval" where
  "project_post post =
     try_bind (js_get post ''id'') (\<lambda>i.
     try_bind (js_get post ''title'') (\<lambda>t.
     try_bind (js_get post ''url'') (\<lambda>u.
     Inr (VObj [(''id'', i), (''title'', t), (''url'', u)]))))"

definition js_get2 :: "jsval \<Rightarrow> string \<Rightarrow> string \<Rightarrow> thrown + jsval" where
  "js_get2 v a b = try_bind (js_get v a) (\<lambda>w. js_get w b)"

text \<open>The object that the \<open>searchMemos\<close> handler serializes.\<close>

definition search_projection :: "jsval \<Rightarrow> thrown + (string \<times> jsval) list" where
  "search_projection result =
     try_bind (js_get result ''posts'') (\<lambda>posts.
     try_bind (js_map project_post posts) (\<lambda>memos.
     try_bind (js_get2 result ''meta'' ''total'') (\<lambda>total.
     try_bind (js_get2 result ''meta'' ''next_page'') (\<lambda>next_page.
     try_bind (js_get2 result ''meta'' ''previous_page'') (\<lambda>previous_page.
     Inr [(''memos'', VArr memos), (''total'', total), (''nextPage'', next_page),
          (''previousPage'', previous_page)])))))"

definition text_result :: "string \<Rightarrow> tool_result" where
  "text_result t = \<lparr>content = [\<lparr>content_type = ''text'', content_text = t\<rparr>]\<rparr>"

text \<open>The \<open>try\<close> block of the \<open>searchMemos\<close> handler, and the handler around it.\<close>

definition searchMemos_try ::
  "(rat \<Rightarrow> string) \<Rightarrow> config \<Rightarrow> (request \<Rightarrow> fetch_outcome) \<Rightarrow> string \<Rightarrow> jsnum option
     \<Rightarrow> jsnum option \<Rightarrow> thrown + tool_result" where
  "searchMemos_try ns cfg fetch q page perPage =
     try_bind (client_searchMemos ns cfg fetch q page (limitedPerPage perPage)) (\<lambda>result.
     try_bind (search_projection result) (\<lambda>props.
     Inr (text_result (JSON_stringify_object ns props))))"

definition searchMemos_handler ::
  "(rat \<Rightarrow> string) \<Rightarrow> config \<Rightarrow> (request \<Rightarrow> fetch_outcome) \<Rightarrow> string \<Rightarrow> jsnum option
     \<Rightarrow> jsnum option \<Rightarrow> thrown + tool_result" where
  "searchMemos_handler ns cfg fetch q page perPage =
     rethrow (searchMemos_try ns cfg fetch q page perPage)"

text \<open>The object that the \<open>getMemoDetail\<close> handler serializes.\<close>

definition detail_projection :: "jsval \<Rightarrow> thrown + (string \<times> jsval) list" where
  "detail_projection memo =
     try_bind (js_get memo ''id'') (\<lambda>i.
     try_bind (js_get memo ''title'') (\<lambda>title.
     try_bind (js_get memo ''body'') (\<lambda>body.
     try_bind (js_get memo ''url'') (\<lambda>u.
     try_bind (js_get memo ''created_at'') (\<lambda>created_at.
     try_bind (js_get memo ''updated_at'') (\<lambda>updated_at.
     try_bind (js_get memo ''tags'') (\<lambda>tags.
     try_bind (js_map (\<lambda>tag. js_get tag ''name'') tags) (\<lambda>tag_names.
     try_bind (js_get2 memo ''user'' ''name'') (\<lambda>user_name.
     try_bind (js_get memo ''groups'') (\<lambda>groups.
     try_bind (js_map (\<lambda>group. js_get group ''name'') groups) (\<lambda>group_names.
     Inr [(''id'', i), (''title'', title), (''body'', body), (''url'', u),
          (''createdAt'', created_at), (''updatedAt'', updated_at),
          (''tags'', VArr tag_names), (''user'', user_name),
          (''groups'', VArr group_names)])))))))))))"

text \<open>The \<open>try\<close> block of the \<open>getMemoDetail\<close> handler, and the handler around it.\<close>

definition getMemoDetail_try ::
  "(rat \<Rightarrow> string) \<Rightarrow> config \<Rightarrow> (request \<Rightarrow> fetch_outcome) \<Rightarrow> string \<Rightarrow> thrown + tool_result" where
  "getMemoDetail_try ns cfg fetch ident =
     try_bind (client_getMemo cfg fetch ident) (\<lambda>memo.
     try_bind (detail_projection memo) (\<lambda>props.
     Inr (text_result (JSON_stringify_object ns props))))"

definition getMemoDetail_handler ::
  "(rat \<Rightarrow> string) \<Rightarrow> config \<Rightarrow> (request \<Rightarrow> fetch_outcome) \<Rightarrow> string \<Rightarrow> thrown + tool_result" where
  "getMemoDetail_handler ns cfg fetch ident =
     rethrow (getMemoDetail_try ns cfg fetch ident)"

section \<open>The module body\<close>

text \<open>
  The module body, top to bottom: the two checks of the environment, each ending the
  process with \<open>process.exit(1)\<close>; then the server is constructed and \<open>main\<close> connects it
  to the transport. A failure of \<open>main\<close> is given by \<open>connect_failure\<close>.
\<close>

datatype console_line = Line string | LineWithError string thrown

record process =
  console_error :: "console_line list"
  console_info :: "console_line list"
  exit_code :: "nat option"
  server_constructed :: bool
  server_connected :: bool

definition token_missing_message :: string where
  "token_missing_message =
     [
      CHR 0xE3, CHR 0x82, CHR 0xA8, CHR 0xE3, CHR 0x83, CHR 0xA9, CHR 0xE3, CHR 0x83,
      CHR 0xBC, CHR 0x3A, CHR 0x20, CHR 0x44, CHR 0x4F, CHR 0x43, CHR 0x42, CHR 0x41,
      CHR 0x53, CHR 0x45, CHR 0x5F, CHR 0x54, CHR 0x4F, CHR 0x4B, CHR 0x45, CHR 0x4E,
      CHR 0x20, CHR 0xE7, CHR 0x92, CHR 0xB0, CHR 0xE5, CHR 0xA2, CHR 0x83, CHR 0xE5,
      CHR 0xA4, CHR 0x89, CHR 0xE6, CHR 0x95, CHR 0xB0, CHR 0xE3, CHR 0x81, CHR 0x8C,
      CHR 0xE8, CHR 0xA8, CHR 0xAD, CHR 0xE5, CHR 0xAE, CHR 0x9A, CHR 0xE3, CHR 0x81,
      CHR 0x95, CHR 0xE3, CHR 0x82, CHR 0x8C, CHR 0xE3, CHR 0x81, CHR 0xA6, CHR 0xE3,
      CHR 0x81, CHR 0x84, CHR 0xE3, CHR 0x81, CHR 0xBE, CHR 0xE3, CHR 0x81, CHR 0x9B,
      CHR 0xE3, CHR 0x82, CHR 0x93, CHR 0xE3, CHR 0x80, CHR 0x82]"

definition domain_missing_message :: string where
  "domain_missing_message =
     [
      CHR 0xE3, CHR 0x82, CHR 0xA8, CHR 0xE3, CHR 0x83, CHR 0xA9, CHR 0xE3, CHR 0x83,
      CHR 0xBC, CHR 0x3A, CHR 0x20, CHR 0x44, CHR 0x4F, CHR 0x43, CHR 0x42, CHR 0x41,
      CHR 0x53, CHR 0x45, CHR 0x5F, CHR 0x44, CHR 0x4F, CHR 0x4D, CHR 0x41, CHR 0x49,
      CHR 0x4E, CHR 0x20, CHR 0xE7, CHR 0x92, CHR 0xB0, CHR 0xE5, CHR 0xA2, CHR 0x83,
      CHR 0xE5, CHR 0xA4, CHR 0x89, CHR 0xE6, CHR 0x95, CHR 0xB0, CHR 0xE3, CHR 0x81,
      CHR 0x8C, CHR 0xE8, CHR 0xA8, CHR 0xAD, CHR 0xE5, CHR 0xAE, CHR 0x9A, CHR 0xE3,
      CHR 0x81, CHR 0x95, CHR 0xE3, CHR 0x82, CHR 0x8C, CHR 0xE3, CHR 0x81, CHR 0xA6,
      CHR 0xE3, CHR 0x81, CHR 0x84, CHR 0xE3, CHR 0x81, CHR 0xBE, CHR 0xE3, CHR 0x81,
      CHR 0x9B, CHR 0xE3, CHR 0x82, CHR 0x93, CHR 0xE3, CHR 0x80, CHR 0x82]"

text \<open>\<open>!v\<close> for a value of \<open>process.env\<close>: unset or the empty string.\<close>

definition env_falsy :: "string option \<Rightarrow> bool" where
  "env_falsy v = (case v of None \<Rightarrow> True | Some s \<Rightarrow> s = [])"

definition startup :: "(string \<rightharpoonup> string) \<Rightarrow> thrown option \<Rightarrow> process" where
  "startup env connect_failure =
     (if env_falsy (env ''DOCBASE_TOKEN'') then
        \<lparr>console_error = [Line token_missing_message], console_info = [],
         exit_code = Some 1, server_constructed = False, server_connected = False\<rparr>
      else if env_falsy (env ''DOCBASE_DOMAIN'') then
        \<lparr>console_error = [Line domain_missing_message], console_info = [],
         exit_code = Some 1, server_constructed = False, server_connected = False\<rparr>
      else
        (case connect_failure of
           None \<Rightarrow>
             \<lparr>console_error = [],
              console_info = [Line ''Docbase MCP Server running on stdin/stdout''],
              exit_code = None, server_constructed = True, server_connected = True\<rparr>
         | Some e \<Rightarrow>
             \<lparr>console_error = [LineWithError ''Fatal error in main():'' e], console_info = [],
              exit_code = Some 1, server_constructed = True, server_connected = False\<rparr>))"

section \<open>Notions used in the statements\<close>

text \<open>
  A character that the path state copies as it is on every runtime: none of the separators
  of the parser, none of the characters it percent-encodes (controls, space, bytes above
  \<open>0x7E\<close> and some punctuation), and not the caret.
\<close>

definition url_plain_char :: "char \<Rightarrow> bool" where
  "url_plain_char c =
     (\<not> in_path_set c \<and> c \<noteq> CHR ''^'' \<and> c \<noteq> CHR ''/'' \<and> c \<noteq> CHR 0x5C)"

text \<open>A string that the parser keeps as one path segment, unchanged.\<close>

definition url_plain_segment :: "string \<Rightarrow> bool" where
  "url_plain_segment s = (list_all url_plain_char s \<and> \<not> is_single_dot s \<and> \<not> is_double_dot s)"

text \<open>The value of \<open>v.name\<close> where the access does not throw.\<close>

definition field :: "jsval \<Rightarrow> string \<Rightarrow> jsval" where
  "field v name =
     (case v of VObj props \<Rightarrow> (case map_of props name of None \<Rightarrow> VUndefined | Some w \<Rightarrow> w)
      | _ \<Rightarrow> VUndefined)"

text \<open>A value whose properties can be read: anything but \<open>null\<close> and \<open>undefined\<close>.\<close>

definition readable :: "jsval \<Rightarrow> bool" where
  "readable v = (v \<noteq> VNull \<and> v \<noteq> VUndefined)"

text \<open>A configuration and upstreams for concrete runs.\<close>

definition acme :: config where
  "acme = \<lparr>DOCBASE_TOKEN = ''secret'', DOCBASE_DOMAIN = ''acme''\<rparr>"

text \<open>The memo that the search handler makes of a post: its \<open>id\<close>, \<open>title\<close> and \<open>url\<close>.\<close>

definition memo_of :: "jsval \<Rightarrow> jsval" where
  "memo_of post =
     VObj [(''id'', field post ''id''), (''title'', field post ''title''),
           (''url'', field post ''url'')]"

text \<open>An upstream that answers every request with the same status line and body, and one
  whose \<open>fetch\<close> rejects.\<close>

definition upstream_answering :: "nat \<Rightarrow> string \<Rightarrow> jsval \<Rightarrow> request \<Rightarrow> fetch_outcome" where
  "upstream_answering st txt b req =
     Resolved \<lparr>resp_status = st, resp_statusText = txt, resp_json = Inr b\<rparr>"

definition upstream_rejecting :: "thrown \<Rightarrow> request \<Rightarrow> fetch_outcome" where
  "upstream_rejecting e req = Rejected e"

text \<open>
  An upstream that refuses the requests with a given property, naming it in the error, and
  answers every other request with the given body.
\<close>

definition upstream_probing ::
  "(request \<Rightarrow> bool) \<Rightarrow> string \<Rightarrow> jsval \<Rightarrow> request \<Rightarrow> fetch_outcome" where
  "upstream_probing P tag b req =
     (if P req then Rejected (ErrorObject ''Probe'' tag)
      else Resolved \<lparr>resp_status = 200, resp_statusText = ''OK'', resp_json = Inr b\<rparr>)"

text \<open>An upstream that refuses the requests to a given path.\<close>

definition upstream_refusing_path :: "string \<Rightarrow> jsval \<Rightarrow> request \<Rightarrow> fetch_outcome" where
  "upstream_refusing_path path b =
     upstream_probing (\<lambda>req. url_pathname (req_url req) = path) path b"

definition two_posts :: "jsval list" where
  "two_posts =
     [VObj [(''id'', VNum (Fin 7)), (''title'', VStr ''Notes''), (''url'', VStr ''u7''),
            (''body'', VStr ''text'')],
      VObj [(''id'', VNum (Fin 8)), (''title'', VStr ''Plan''), (''url'', VStr ''u8'')]]"

definition search_body :: jsval where
  "search_body =
     VObj [(''posts'', VArr two_posts),
           (''meta'', VObj [(''previous_page'', VNull), (''next_page'', VNum (Fin 2)),
                            (''total'', VNum (Fin 40))])]"

definition detail_body :: jsval where
  "detail_body =
     VObj [(''id'', VNum (Fin 7)), (''title'', VStr ''Notes''), (''body'', VStr ''text''),
           (''url'', VStr ''u7''), (''created_at'', VStr ''2020-01-01''),
           (''updated_at'', VStr ''2020-01-02''), (''draft'', VBool False),
           (''tags'', VArr [VObj [(''name'', VStr ''a'')], VObj [(''name'', VStr ''b'')]]),
           (''user'', VObj [(''id'', VNum (Fin 1)), (''name'', VStr ''u'')]),
           (''groups'', VArr [VObj [(''id'', VNum (Fin 3)), (''name'', VStr ''g'')]])]"

text \<open>A search body with \<open>null\<close> in the place of a post, and a detail record whose
  \<open>user\<close> is \<open>null\<close>.\<close>

definition search_body_null_post :: jsval where
  "search_body_null_post =
     VObj [(''posts'', VArr [VNull]),
           (''meta'', VObj [(''previous_page'', VNull), (''next_page'', VNull),
                            (''total'', VNum (Fin 1))])]"

definition detail_body_null_user :: jsval where
  "detail_body_null_user =
     VObj [(''id'', VNum (Fin 7)), (''title'', VStr ''Notes''), (''body'', VStr ''text''),
           (''url'', VStr ''u7''), (''created_at'', VStr ''2020-01-01''),
           (''updated_at'', VStr ''2020-01-02''),
           (''tags'', VArr [VObj [(''name'', VStr ''a'')]]),
           (''user'', VNull),
           (''groups'', VArr [])]"

section \<open>The outgoing requests\<close>

lemma js_gt_truthy: "js_gt p (Fin 100) \<Longrightarrow> num_truthy p"
  by (cases p) auto

lemma limitedPerPage_gt: "js_gt p (Fin 100) \<Longrightarrow> limitedPerPage (Some p) = Some (Fin 100)"
  by (simp add: limitedPerPage_def js_gt_truthy)

lemma limitedPerPage_not_gt: "\<not> js_gt p (Fin 100) \<Longrightarrow> limitedPerPage (Some p) = Some p"
  by (simp add: limitedPerPage_def)

lemma limitedPerPage_None: "limitedPerPage None = None"
  by (simp add: limitedPerPage_def)

lemma searchMemos_request_params:
  "url_searchParams (req_url (searchMemos_request ns cfg q page perPage)) =
     [(''q'', q),
      (''page'', number_toString ns (case page of None \<Rightarrow> Fin 1 | Some p \<Rightarrow> p)),
      (''per_page'', number_toString ns (case perPage of None \<Rightarrow> Fin 20 | Some p \<Rightarrow> p))]"
  by (simp add: searchMemos_request_def fetch_request_def searchParams_append_def new_URL_def
      Let_def)

section \<open>The URL constructor on plain segments\<close>

lemma of_char_space: "(of_char c :: nat) = 32 \<longleftrightarrow> c = CHR 0x20"
proof -
  have "(of_char (CHR 0x20) :: nat) = 32" by simp
  then show ?thesis by (metis of_char_eq_iff)
qed

lemma plain_not_c0: "url_plain_char c \<Longrightarrow> \<not> is_c0_or_space c"
proof -
  assume p: "url_plain_char c"
  then have a: "\<not> (of_char c :: nat) < 32" and b: "c \<noteq> CHR 0x20"
    by (simp_all add: url_plain_char_def in_path_set_def in_query_set_def in_c0_control_set_def)
  from b have "(of_char c :: nat) \<noteq> 32" by (simp add: of_char_space)
  with a show ?thesis by (simp add: is_c0_or_space_def)
qed

lemma tab_is_c0: "is_tab_or_newline c \<Longrightarrow> is_c0_or_space c"
  by (auto simp: is_tab_or_newline_def is_c0_or_space_def)

lemma path_state_plain:
  "list_all url_plain_char s \<Longrightarrow> path_state buf path (s @ rest) = path_state (buf @ s) path rest"
proof (induction s arbitrary: buf)
  case Nil
  then show ?case by simp
next
  case (Cons c s)
  then have c: "url_plain_char c" and s: "list_all url_plain_char s" by simp_all
  from c have n: "c \<noteq> CHR ''/''" "c \<noteq> CHR 0x5C" "\<not> in_path_set c"
    by (simp_all add: url_plain_char_def)
  from n(3) have m: "c \<noteq> CHR ''?''" "c \<noteq> CHR ''#''"
    by (auto simp: in_path_set_def in_query_set_def)
  have "path_state buf path ((c # s) @ rest) = path_state (buf @ [c]) path (s @ rest)"
    using n m by (simp add: percent_encode_def)
  also have "\<dots> = path_state ((buf @ [c]) @ s) path rest"
    by (rule Cons.IH [OF s])
  finally show ?case by simp
qed

lemma strip_no_space:
  assumes "\<forall>c\<in>set s. \<not> is_c0_or_space c"
  shows "strip_c0_or_space s = s"
proof (cases s rule: rev_cases)
  case Nil
  then show ?thesis by (simp add: strip_c0_or_space_def)
next
  case (snoc ys y)
  have a: "dropWhile is_c0_or_space s = s"
    using assms by (cases s) simp_all
  have b: "dropWhile is_c0_or_space (rev s) = rev s"
    using assms snoc by simp
  show ?thesis by (simp add: strip_c0_or_space_def a b)
qed

lemma remove_no_tab:
  "\<forall>c\<in>set s. \<not> is_c0_or_space c \<Longrightarrow> filter (\<lambda>c. \<not> is_tab_or_newline c) s = s"
  by (induction s) (auto dest: tab_is_c0)

lemma segment_then_slash:
  assumes "url_plain_segment s"
  shows "path_state [] path (s @ CHR ''/'' # rest) = path_state [] (path @ [s]) rest"
proof -
  from assms have p: "list_all url_plain_char s" and d: "\<not> is_single_dot s" "\<not> is_double_dot s"
    by (simp_all add: url_plain_segment_def)
  have "path_state [] path (s @ CHR ''/'' # rest) = path_state s path (CHR ''/'' # rest)"
    using path_state_plain [OF p, of "[]" path "CHR ''/'' # rest"] by simp
  also have "\<dots> = path_state [] (path @ [s]) rest"
    using d by (simp add: close_segment_def)
  finally show ?thesis .
qed

lemma segment_at_end:
  assumes "url_plain_segment s"
  shows "path_state [] path s = (path @ [s], None)"
proof -
  from assms have p: "list_all url_plain_char s" and d: "\<not> is_single_dot s" "\<not> is_double_dot s"
    by (simp_all add: url_plain_segment_def)
  have "path_state [] path s = path_state s path []"
    using path_state_plain [OF p, of "[]" path "[]"] by simp
  also have "\<dots> = (path @ [s], None)"
    using d by (simp add: close_segment_def)
  finally show ?thesis .
qed

lemma plain_teams: "url_plain_segment ''teams''"
  by code_simp

lemma plain_posts: "url_plain_segment ''posts''"
  by code_simp

lemma slash_not_c0: "\<not> is_c0_or_space (CHR ''/'')"
  by code_simp

lemma plain_segment_no_space: "url_plain_segment s \<Longrightarrow> \<forall>c\<in>set s. \<not> is_c0_or_space c"
  by (simp add: url_plain_segment_def list_all_iff plain_not_c0)

lemma cleanup_no_space:
  "\<forall>c\<in>set s. \<not> is_c0_or_space c \<Longrightarrow>
     filter (\<lambda>c. \<not> is_tab_or_newline c) (strip_c0_or_space s) = s"
  by (simp add: strip_no_space remove_no_tab)

lemma new_URL_posts:
  assumes dmn: "url_plain_segment dmn"
  shows "new_URL (''/teams/'' @ dmn @ ''/posts'') base =
           \<lparr>url_origin = base, url_pathname = ''/teams/'' @ dmn @ ''/posts'',
            url_query = None, url_searchParams = []\<rparr>"
proof -
  let ?input = "''/teams/'' @ dmn @ ''/posts''"
  have ns: "\<forall>c\<in>set ?input. \<not> is_c0_or_space c"
    using plain_segment_no_space [OF dmn] plain_segment_no_space [OF plain_teams]
      plain_segment_no_space [OF plain_posts] slash_not_c0 by auto
  have cl: "filter (\<lambda>c. \<not> is_tab_or_newline c) (strip_c0_or_space ?input) = ?input"
    by (rule cleanup_no_space [OF ns])
  have "path_state [] [] (''teams'' @ CHR ''/'' # dmn @ CHR ''/'' # ''posts'')
          = path_state [] [''teams''] (dmn @ CHR ''/'' # ''posts'')"
    using segment_then_slash [OF plain_teams, of "[]"] by simp
  also have "\<dots> = path_state [] [''teams'', dmn] ''posts''"
    using segment_then_slash [OF dmn, of "[''teams'']" "''posts''"] by simp
  also have "\<dots> = ([''teams'', dmn, ''posts''], None)"
    using segment_at_end [OF plain_posts, of "[''teams'', dmn]"] by simp
  finally have ps: "path_state [] [] (''teams'' @ CHR ''/'' # dmn @ CHR ''/'' # ''posts'')
          = ([''teams'', dmn, ''posts''], None)" .
  have d1: "drop 1 ?input = ''teams'' @ CHR ''/'' # dmn @ CHR ''/'' # ''posts''" by simp
  have "new_URL ?input base =
          \<lparr>url_origin = base, url_pathname = serialize_path [''teams'', dmn, ''posts''],
           url_query = None, url_searchParams = []\<rparr>"
    by (simp only: new_URL_def Let_def cl d1 ps fst_conv snd_conv)
  then show ?thesis
    by (simp add: serialize_path_def)
qed

lemma new_URL_post:
  assumes dmn: "url_plain_segment dmn" and ident: "url_plain_segment ident"
  shows "new_URL (''/teams/'' @ dmn @ ''/posts/'' @ ident) base =
           \<lparr>url_origin = base, url_pathname = ''/teams/'' @ dmn @ ''/posts/'' @ ident,
            url_query = None, url_searchParams = []\<rparr>"
proof -
  let ?input = "''/teams/'' @ dmn @ ''/posts/'' @ ident"
  have ns: "\<forall>c\<in>set ?input. \<not> is_c0_or_space c"
    using plain_segment_no_space [OF dmn] plain_segment_no_space [OF plain_teams]
      plain_segment_no_space [OF plain_posts] plain_segment_no_space [OF ident] slash_not_c0
    by auto
  have cl: "filter (\<lambda>c. \<not> is_tab_or_newline c) (strip_c0_or_space ?input) = ?input"
    by (rule cleanup_no_space [OF ns])
  have "path_state [] [] (''teams'' @ CHR ''/'' # dmn @ CHR ''/'' # ''posts'' @ CHR ''/'' # ident)
          = path_state [] [''teams''] (dmn @ CHR ''/'' # ''posts'' @ CHR ''/'' # ident)"
    using segment_then_slash [OF plain_teams, of "[]"] by simp
  also have "\<dots> = path_state [] [''teams'', dmn] (''posts'' @ CHR ''/'' # ident)"
    using segment_then_slash [OF dmn, of "[''teams'']"] by simp
  also have "\<dots> = path_state [] [''teams'', dmn, ''posts''] ident"
    using segment_then_slash [OF plain_posts, of "[''teams'', dmn]"] by simp
  also have "\<dots> = ([''teams'', dmn, ''posts'', ident], None)"
    using segment_at_end [OF ident, of "[''teams'', dmn, ''posts'']"] by simp
  finally have ps:
    "path_state [] [] (''teams'' @ CHR ''/'' # dmn @ CHR ''/'' # ''posts'' @ CHR ''/'' # ident)
          = ([''teams'', dmn, ''posts'', ident], None)" .
  have d1: "drop 1 ?input = ''teams'' @ CHR ''/'' # dmn @ CHR ''/'' # ''posts'' @ CHR ''/'' # ident"
    by simp
  have "new_URL ?input base =
          \<lparr>url_origin = base, url_pathname = serialize_path [''teams'', dmn, ''posts'', ident],
           url_query = None, url_searchParams = []\<rparr>"
    by (simp only: new_URL_def Let_def cl d1 ps fst_conv snd_conv)
  then show ?thesis
    by (simp add: serialize_path_def)
qed

text \<open>
  Claim C6, as amended. Where the tenant domain is a plain path segment, the search request
  is a GET to \<open>/teams/{domain}/posts\<close> on the base URL whose query parameters are \<open>q\<close>,
  \<open>page\<close> and \<open>per_page\<close> and no others; where the \<open>id\<close> is a plain path segment
  too, the detail request is a GET to \<open>/teams/{domain}/posts/{id}\<close> with no query at all.
  Both carry the token in the header \<open>X-DocBaseToken\<close>.
\<close>

theorem requests_with_plain_domain_and_id:
  "url_plain_segment (DOCBASE_DOMAIN cfg) \<Longrightarrow>
     req_method (searchMemos_request ns cfg q page perPage) = ''GET''
     \<and> url_origin (req_url (searchMemos_request ns cfg q page perPage)) = ''https://api.docbase.io''
     \<and> url_pathname (req_url (searchMemos_request ns cfg q page perPage))
         = ''/teams/'' @ DOCBASE_DOMAIN cfg @ ''/posts''
     \<and> url_query (req_url (searchMemos_request ns cfg q page perPage)) = None
     \<and> map fst (url_searchParams (req_url (searchMemos_request ns cfg q page perPage)))
         = [''q'', ''page'', ''per_page'']
     \<and> map_of (req_headers (searchMemos_request ns cfg q page perPage)) ''X-DocBaseToken''
         = Some (DOCBASE_TOKEN cfg)
     \<and> (url_plain_segment ident \<longrightarrow>
           req_method (getMemo_request cfg ident) = ''GET''
           \<and> url_origin (req_url (getMemo_request cfg ident)) = ''https://api.docbase.io''
           \<and> url_pathname (req_url (getMemo_request cfg ident))
               = ''/teams/'' @ DOCBASE_DOMAIN cfg @ ''/posts/'' @ ident
           \<and> url_query (req_url (getMemo_request cfg ident)) = None
           \<and> url_searchParams (req_url (getMemo_request cfg ident)) = []
           \<and> map_of (req_headers (getMemo_request cfg ident)) ''X-DocBaseToken''
               = Some (DOCBASE_TOKEN cfg))"
proof -
  assume dmn: "url_plain_segment (DOCBASE_DOMAIN cfg)"
  have s: "searchMemos_request ns cfg q page perPage =
      \<lparr>req_method = ''GET'',
       req_url = \<lparr>url_origin = BASE_URL,
                  url_pathname = ''/teams/'' @ DOCBASE_DOMAIN cfg @ ''/posts'',
                  url_query = None,
                  url_searchParams =
                    [(''q'', q),
                     (''page'', number_toString ns (case page of None \<Rightarrow> Fin 1 | Some p \<Rightarrow> p)),
                     (''per_page'',
                      number_toString ns (case perPage of None \<Rightarrow> Fin 20 | Some p \<Rightarrow> p))]\<rparr>,
       req_headers = headers cfg\<rparr>"
    unfolding searchMemos_request_def new_URL_posts [OF dmn]
    by (simp add: searchParams_append_def fetch_request_def)
  have g: "getMemo_request cfg ident =
      \<lparr>req_method = ''GET'',
       req_url = \<lparr>url_origin = BASE_URL,
                  url_pathname = ''/teams/'' @ DOCBASE_DOMAIN cfg @ ''/posts/'' @ ident,
                  url_query = None, url_searchParams = []\<rparr>,
       req_headers = headers cfg\<rparr>"
    if "url_plain_segment ident"
    unfolding getMemo_request_def new_URL_post [OF dmn that]
    by (simp add: fetch_request_def)
  show ?thesis
    by (simp add: s g headers_def BASE_URL_def)
qed

text \<open>C6 as amended, at the domain \<open>acme\<close> and the id \<open>12\<close>.\<close>

theorem requests_with_plain_domain_and_id_witness:
  "url_plain_segment (DOCBASE_DOMAIN acme) \<and> url_plain_segment ''12''
   \<and> url_pathname (req_url (searchMemos_request int_digits acme ''isabelle'' None None))
       = ''/teams/acme/posts''
   \<and> url_query (req_url (searchMemos_request int_digits acme ''isabelle'' None None)) = None
   \<and> url_pathname (req_url (getMemo_request acme ''12'')) = ''/teams/acme/posts/12''
   \<and> url_query (req_url (getMemo_request acme ''12'')) = None
   \<and> url_searchParams (req_url (getMemo_request acme ''12'')) = []
   \<and> map_of (req_headers (getMemo_request acme ''12'')) ''X-DocBaseToken'' = Some ''secret''"
proof -
  have a: "url_plain_segment (DOCBASE_DOMAIN acme)" by code_simp
  have b: "url_plain_segment ''12''" by code_simp
  have c: "DOCBASE_DOMAIN acme = ''acme''" "DOCBASE_TOKEN acme = ''secret''"
    by (simp_all add: acme_def)
  show ?thesis
    using requests_with_plain_domain_and_id [OF a, of int_digits "''isabelle''" None None "''12''"]
      a b c
    by simp
qed

text \<open>
  Claim C6 as it is written fails at the id \<open>1?a=b\<close>: the URL constructor ends the path
  at the question mark, so the detail request goes to \<open>/teams/acme/posts/1\<close> and has the
  query \<open>a=b\<close>.
\<close>

theorem id_with_question_mark_counterexample:
  "url_query (req_url (getMemo_request acme ''1?a=b'')) = Some ''a=b''
   \<and> url_pathname (req_url (getMemo_request acme ''1?a=b'')) = ''/teams/acme/posts/1''
   \<and> url_pathname (req_url (getMemo_request acme ''1?a=b''))
       \<noteq> ''/teams/'' @ DOCBASE_DOMAIN acme @ ''/posts/'' @ ''1?a=b''"
  by code_simp

section \<open>The client and the handlers\<close>

lemma client_searchMemos_rejected:
  "fetch (searchMemos_request ns cfg q page perPage) = Rejected e \<Longrightarrow>
     client_searchMemos ns cfg fetch q page perPage = Inl e"
  by (simp add: client_searchMemos_def)

lemma client_searchMemos_resolved:
  "fetch (searchMemos_request ns cfg q page perPage) = Resolved r \<Longrightarrow>
     client_searchMemos ns cfg fetch q page perPage =
       (if response_ok r then resp_json r else Inl (ErrorObject ''Error'' (api_error_message r)))"
  by (simp add: client_searchMemos_def)

lemma client_getMemo_rejected:
  "fetch (getMemo_request cfg ident) = Rejected e \<Longrightarrow> client_getMemo cfg fetch ident = Inl e"
  by (simp add: client_getMemo_def)

lemma client_getMemo_resolved:
  "fetch (getMemo_request cfg ident) = Resolved r \<Longrightarrow>
     client_getMemo cfg fetch ident =
       (if response_ok r then resp_json r else Inl (ErrorObject ''Error'' (api_error_message r)))"
  by (simp add: client_getMemo_def)

lemma try_bind_Inl [simp]: "try_bind (Inl e) f = Inl e"
  by (simp add: try_bind_def)

lemma try_bind_Inr [simp]: "try_bind (Inr v) f = f v"
  by (simp add: try_bind_def)

lemma rethrow_Inr [simp]: "rethrow (Inr v) = Inr v"
  by (simp add: rethrow_def)

lemma rethrow_Error: "instanceof_Error e \<Longrightarrow> rethrow (Inl e) = Inl e"
  by (simp add: rethrow_def)

lemma rethrow_non_Error:
  "\<not> instanceof_Error e \<Longrightarrow> rethrow (Inl e) = Inl (ErrorObject ''Error'' unknown_error_message)"
  by (simp add: rethrow_def)

lemma not_ok_iff: "\<not> response_ok r \<longleftrightarrow> resp_status r < 200 \<or> 299 < resp_status r"
  by (auto simp: response_ok_def)

lemma searchMemos_try_rejected:
  "fetch (searchMemos_handler_request ns cfg q page perPage) = Rejected e \<Longrightarrow>
     searchMemos_try ns cfg fetch q page perPage = Inl e"
  by (simp add: searchMemos_try_def searchMemos_handler_request_def client_searchMemos_rejected)

lemma getMemoDetail_try_rejected:
  "fetch (getMemo_request cfg ident) = Rejected e \<Longrightarrow>
     getMemoDetail_try ns cfg fetch ident = Inl e"
  by (simp add: getMemoDetail_try_def client_getMemo_rejected)

lemma searchMemos_try_resolved:
  "fetch (searchMemos_handler_request ns cfg q page perPage) = Resolved r \<Longrightarrow> response_ok r \<Longrightarrow>
     searchMemos_try ns cfg fetch q page perPage =
       try_bind (resp_json r) (\<lambda>result.
       try_bind (search_projection result) (\<lambda>props.
       Inr (text_result (JSON_stringify_object ns props))))"
  by (simp add: searchMemos_try_def searchMemos_handler_request_def client_searchMemos_resolved)

lemma getMemoDetail_try_resolved:
  "fetch (getMemo_request cfg ident) = Resolved r \<Longrightarrow> response_ok r \<Longrightarrow>
     getMemoDetail_try ns cfg fetch ident =
       try_bind (resp_json r) (\<lambda>memo.
       try_bind (detail_projection memo) (\<lambda>props.
       Inr (text_result (JSON_stringify_object ns props))))"
  by (simp add: getMemoDetail_try_def client_getMemo_resolved)

text \<open>
  Claim C4. Where the upstream answers either operation with a status outside 200 to 299,
  the tool call fails with an \<open>Error\<close> whose message is the fixed prefix, the status
  code in decimal, a space and the status text. The body of the response has no part in
  the outcome: nothing is projected and nothing is returned.
\<close>

theorem non_2xx_fails_with_status:
  "(fetch (searchMemos_handler_request ns cfg q page perPage) = Resolved r
      \<and> (resp_status r < 200 \<or> 299 < resp_status r) \<longrightarrow>
      searchMemos_handler ns cfg fetch q page perPage =
        Inl (ErrorObject ''Error''
              (api_error_prefix @ nat_toString (resp_status r) @ '' '' @ resp_statusText r)))
   \<and> (fetch (getMemo_request cfg ident) = Resolved r
      \<and> (resp_status r < 200 \<or> 299 < resp_status r) \<longrightarrow>
      getMemoDetail_handler ns cfg fetch ident =
        Inl (ErrorObject ''Error''
              (api_error_prefix @ nat_toString (resp_status r) @ '' '' @ resp_statusText r)))"
proof (intro conjI impI)
  assume a: "fetch (searchMemos_handler_request ns cfg q page perPage) = Resolved r
      \<and> (resp_status r < 200 \<or> 299 < resp_status r)"
  then have f: "fetch (searchMemos_request ns cfg q page (limitedPerPage perPage)) = Resolved r"
    and n: "\<not> response_ok r"
    by (simp_all add: searchMemos_handler_request_def not_ok_iff)
  show "searchMemos_handler ns cfg fetch q page perPage =
        Inl (ErrorObject ''Error''
              (api_error_prefix @ nat_toString (resp_status r) @ '' '' @ resp_statusText r))"
    using f n
    by (simp add: searchMemos_handler_def searchMemos_try_def client_searchMemos_resolved
        rethrow_Error api_error_message_def)
next
  assume a: "fetch (getMemo_request cfg ident) = Resolved r
      \<and> (resp_status r < 200 \<or> 299 < resp_status r)"
  then have f: "fetch (getMemo_request cfg ident) = Resolved r" and n: "\<not> response_ok r"
    by (simp_all add: not_ok_iff)
  show "getMemoDetail_handler ns cfg fetch ident =
        Inl (ErrorObject ''Error''
              (api_error_prefix @ nat_toString (resp_status r) @ '' '' @ resp_statusText r))"
    using f n
    by (simp add: getMemoDetail_handler_def getMemoDetail_try_def client_getMemo_resolved
        rethrow_Error api_error_message_def)
qed

text \<open>C4 at a 404 answer, for both tools.\<close>

theorem non_2xx_fails_with_status_witness:
  "(404::nat) > 299
   \<and> searchMemos_handler int_digits acme (upstream_answering 404 ''Not Found'' search_body)
        ''isabelle'' None None
      = Inl (ErrorObject ''Error'' (api_error_prefix @ ''404 Not Found''))
   \<and> getMemoDetail_handler int_digits acme (upstream_answering 404 ''Not Found'' detail_body) ''7''
      = Inl (ErrorObject ''Error'' (api_error_prefix @ ''404 Not Found''))"
proof -
  have d: "nat_toString 404 = ''404''" by code_simp
  show ?thesis
    using non_2xx_fails_with_status
        [where fetch = "upstream_answering 404 ''Not Found'' search_body" and ns = int_digits
           and cfg = acme and q = "''isabelle''" and page = None and perPage = None
           and r = "\<lparr>resp_status = 404, resp_statusText = ''Not Found'',
                      resp_json = Inr search_body\<rparr>"]
      non_2xx_fails_with_status
        [where fetch = "upstream_answering 404 ''Not Found'' detail_body" and ns = int_digits
           and cfg = acme and ident = "''7''"
           and r = "\<lparr>resp_status = 404, resp_statusText = ''Not Found'',
                      resp_json = Inr detail_body\<rparr>"] d
    by (simp add: upstream_answering_def)
qed

text \<open>
  Claim C7. Where the \<open>try\<close> block of either handler throws a value that is no
  \<open>Error\<close> instance, the handler throws an \<open>Error\<close> with the fixed message for an
  unknown error; where it throws an \<open>Error\<close> instance, the handler throws that very
  value.
\<close>

theorem thrown_values_normalized:
  "(searchMemos_try ns cfg fetch q page perPage = Inl e \<and> \<not> instanceof_Error e \<longrightarrow>
      searchMemos_handler ns cfg fetch q page perPage
        = Inl (ErrorObject ''Error'' unknown_error_message))
   \<and> (searchMemos_try ns cfg fetch q page perPage = Inl e \<and> instanceof_Error e \<longrightarrow>
      searchMemos_handler ns cfg fetch q page perPage = Inl e)
   \<and> (getMemoDetail_try ns cfg fetch ident = Inl e \<and> \<not> instanceof_Error e \<longrightarrow>
      getMemoDetail_handler ns cfg fetch ident
        = Inl (ErrorObject ''Error'' unknown_error_message))
   \<and> (getMemoDetail_try ns cfg fetch ident = Inl e \<and> instanceof_Error e \<longrightarrow>
      getMemoDetail_handler ns cfg fetch ident = Inl e)"
  by (simp add: searchMemos_handler_def getMemoDetail_handler_def rethrow_Error
      rethrow_non_Error)

text \<open>
  C7 at a \<open>fetch\<close> that rejects with the string \<open>boom\<close> (search) and at one that
  rejects with a \<open>TypeError\<close> (detail).
\<close>

theorem thrown_values_normalized_witness:
  "searchMemos_try int_digits acme (upstream_rejecting (NonError (VStr ''boom''))) ''x'' None None
     = Inl (NonError (VStr ''boom''))
   \<and> \<not> instanceof_Error (NonError (VStr ''boom''))
   \<and> searchMemos_handler int_digits acme (upstream_rejecting (NonError (VStr ''boom'')))
        ''x'' None None
     = Inl (ErrorObject ''Error'' unknown_error_message)
   \<and> getMemoDetail_try int_digits acme
        (upstream_rejecting (ErrorObject ''TypeError'' ''fetch failed'')) ''7''
     = Inl (ErrorObject ''TypeError'' ''fetch failed'')
   \<and> instanceof_Error (ErrorObject ''TypeError'' ''fetch failed'')
   \<and> getMemoDetail_handler int_digits acme
        (upstream_rejecting (ErrorObject ''TypeError'' ''fetch failed'')) ''7''
     = Inl (ErrorObject ''TypeError'' ''fetch failed'')"
proof -
  have a: "searchMemos_try int_digits acme (upstream_rejecting (NonError (VStr ''boom'')))
             ''x'' None None = Inl (NonError (VStr ''boom''))"
    by (simp add: searchMemos_try_rejected upstream_rejecting_def)
  have b: "getMemoDetail_try int_digits acme
             (upstream_rejecting (ErrorObject ''TypeError'' ''fetch failed'')) ''7''
           = Inl (ErrorObject ''TypeError'' ''fetch failed'')"
    by (simp add: getMemoDetail_try_rejected upstream_rejecting_def)
  show ?thesis
    using a b
      thrown_values_normalized
        [where fetch = "upstream_rejecting (NonError (VStr ''boom''))" and ns = int_digits
           and cfg = acme and q = "''x''" and page = None and perPage = None
           and e = "NonError (VStr ''boom'')"]
      thrown_values_normalized
        [where fetch = "upstream_rejecting (ErrorObject ''TypeError'' ''fetch failed'')"
           and ns = int_digits and cfg = acme and ident = "''7''"
           and e = "ErrorObject ''TypeError'' ''fetch failed''"]
    by simp
qed

text \<open>Whatever a handler throws is an \<open>Error\<close> instance.\<close>

lemma handler_error_is_Error:
  "searchMemos_handler ns cfg fetch q page perPage = Inl e \<Longrightarrow> instanceof_Error e"
  by (auto simp: searchMemos_handler_def rethrow_def split: sum.splits if_splits)

lemma detail_handler_error_is_Error:
  "getMemoDetail_handler ns cfg fetch ident = Inl e \<Longrightarrow> instanceof_Error e"
  by (auto simp: getMemoDetail_handler_def rethrow_def split: sum.splits if_splits)

lemma serialize_JSON_object:
  "serialize_JSON ns [] (VObj props) = Some (JSON_stringify_object ns props)"
  by (simp add: JSON_stringify_object_def member_texts_def)

lemma try_bind_eq_Inr:
  "try_bind m f = Inr y \<longleftrightarrow> (\<exists>v. m = Inr v \<and> f v = Inr y)"
  by (cases m) simp_all

lemma rethrow_eq_Inr: "rethrow m = Inr y \<longleftrightarrow> m = Inr y"
  by (cases m) (simp_all add: rethrow_def)

lemma client_searchMemos_eq_Inr:
  "client_searchMemos ns cfg fetch q page perPage = Inr b \<Longrightarrow>
     \<exists>r. fetch (searchMemos_request ns cfg q page perPage) = Resolved r \<and> response_ok r
        \<and> resp_json r = Inr b"
  by (auto simp: client_searchMemos_def split: fetch_outcome.splits if_splits)

lemma client_getMemo_eq_Inr:
  "client_getMemo cfg fetch ident = Inr b \<Longrightarrow>
     \<exists>r. fetch (getMemo_request cfg ident) = Resolved r \<and> response_ok r \<and> resp_json r = Inr b"
  by (auto simp: client_getMemo_def split: fetch_outcome.splits if_splits)

lemma member_texts_nonempty:
  "(k, v) \<in> set props \<Longrightarrow> serialize_JSON ns indent v \<noteq> None \<Longrightarrow> member_texts ns indent props \<noteq> []"
  by (auto simp: member_texts_def split: option.splits intro!: bexI [of _ "(k, v)"])

lemma object_text_members:
  "members \<noteq> [] \<Longrightarrow>
     object_text [] members =
       ''{'' @ [CHR 0x0A] @ ''  '' @ join ('','' @ [CHR 0x0A] @ ''  '') members @ [CHR 0x0A] @ ''}''"
  by (simp add: object_text_def gap_def)

lemma search_projection_has_memos:
  "search_projection b = Inr props \<Longrightarrow> \<exists>memos. (''memos'', VArr memos) \<in> set props"
  by (auto simp: search_projection_def try_bind_eq_Inr)

lemma detail_projection_has_tags:
  "detail_projection b = Inr props \<Longrightarrow> \<exists>names. (''tags'', VArr names) \<in> set props"
  by (auto simp: detail_projection_def try_bind_eq_Inr)

text \<open>
  Claim C8. Where either tool succeeds, its result has exactly one content element, of type
  \<open>text\<close>, and the text is \<open>JSON.stringify\<close> with indentation 2 of the object
  projected from the body that the upstream sent: an opening brace, the members each on a
  line of its own behind two spaces, with a comma between them, and the closing brace on
  the last line.
\<close>

theorem success_is_one_text_block:
  "(searchMemos_handler ns cfg fetch q page perPage = Inr res \<longrightarrow>
      (\<exists>r b props.
          fetch (searchMemos_handler_request ns cfg q page perPage) = Resolved r
        \<and> resp_json r = Inr b \<and> search_projection b = Inr props
        \<and> serialize_JSON ns [] (VObj props) = Some (JSON_stringify_object ns props)
        \<and> content res
            = [\<lparr>content_type = ''text'', content_text = JSON_stringify_object ns props\<rparr>]
        \<and> member_texts ns ''  '' props \<noteq> []
        \<and> JSON_stringify_object ns props
            = ''{'' @ [CHR 0x0A] @ ''  ''
              @ join ('','' @ [CHR 0x0A] @ ''  '') (member_texts ns ''  '' props)
              @ [CHR 0x0A] @ ''}''))
   \<and> (getMemoDetail_handler ns cfg fetch ident = Inr res \<longrightarrow>
      (\<exists>r b props.
          fetch (getMemo_request cfg ident) = Resolved r
        \<and> resp_json r = Inr b \<and> detail_projection b = Inr props
        \<and> serialize_JSON ns [] (VObj props) = Some (JSON_stringify_object ns props)
        \<and> content res
            = [\<lparr>content_type = ''text'', content_text = JSON_stringify_object ns props\<rparr>]
        \<and> member_texts ns ''  '' props \<noteq> []
        \<and> JSON_stringify_object ns props
            = ''{'' @ [CHR 0x0A] @ ''  ''
              @ join ('','' @ [CHR 0x0A] @ ''  '') (member_texts ns ''  '' props)
              @ [CHR 0x0A] @ ''}''))"
proof (intro conjI impI)
  assume "searchMemos_handler ns cfg fetch q page perPage = Inr res"
  then obtain b props where
    c: "client_searchMemos ns cfg fetch q page (limitedPerPage perPage) = Inr b"
    and p: "search_projection b = Inr props"
    and t: "res = text_result (JSON_stringify_object ns props)"
    by (auto simp: searchMemos_handler_def searchMemos_try_def rethrow_eq_Inr try_bind_eq_Inr)
  from client_searchMemos_eq_Inr [OF c] obtain r where
    f: "fetch (searchMemos_handler_request ns cfg q page perPage) = Resolved r"
    and j: "resp_json r = Inr b"
    by (auto simp: searchMemos_handler_request_def)
  from search_projection_has_memos [OF p] obtain memos where
    m: "(''memos'', VArr memos) \<in> set props" ..
  have s: "serialize_JSON ns [] (VObj props) = Some (JSON_stringify_object ns props)"
    by (rule serialize_JSON_object)
  have c: "content res
            = [\<lparr>content_type = ''text'', content_text = JSON_stringify_object ns props\<rparr>]"
    by (simp add: t text_result_def)
  have n: "member_texts ns ''  '' props \<noteq> []"
    using m by (rule member_texts_nonempty) simp
  have e: "JSON_stringify_object ns props
            = ''{'' @ [CHR 0x0A] @ ''  ''
              @ join ('','' @ [CHR 0x0A] @ ''  '') (member_texts ns ''  '' props)
              @ [CHR 0x0A] @ ''}''"
    using n by (simp add: JSON_stringify_object_def object_text_def gap_def)
  from f j p s c n e
  show "\<exists>r b props.
          fetch (searchMemos_handler_request ns cfg q page perPage) = Resolved r
        \<and> resp_json r = Inr b \<and> search_projection b = Inr props
        \<and> serialize_JSON ns [] (VObj props) = Some (JSON_stringify_object ns props)
        \<and> content res
            = [\<lparr>content_type = ''text'', content_text = JSON_stringify_object ns props\<rparr>]
        \<and> member_texts ns ''  '' props \<noteq> []
        \<and> JSON_stringify_object ns props
            = ''{'' @ [CHR 0x0A] @ ''  ''
              @ join ('','' @ [CHR 0x0A] @ ''  '') (member_texts ns ''  '' props)
              @ [CHR 0x0A] @ ''}''"
    by blast
next
  assume "getMemoDetail_handler ns cfg fetch ident = Inr res"
  then obtain b props where
    c: "client_getMemo cfg fetch ident = Inr b"
    and p: "detail_projection b = Inr props"
    and t: "res = text_result (JSON_stringify_object ns props)"
    by (auto simp: getMemoDetail_handler_def getMemoDetail_try_def rethrow_eq_Inr try_bind_eq_Inr)
  from client_getMemo_eq_Inr [OF c] obtain r where
    f: "fetch (getMemo_request cfg ident) = Resolved r" and j: "resp_json r = Inr b"
    by auto
  from detail_projection_has_tags [OF p] obtain names where
    m: "(''tags'', VArr names) \<in> set props" ..
  have s: "serialize_JSON ns [] (VObj props) = Some (JSON_stringify_object ns props)"
    by (rule serialize_JSON_object)
  have c: "content res
            = [\<lparr>content_type = ''text'', content_text = JSON_stringify_object ns props\<rparr>]"
    by (simp add: t text_result_def)
  have n: "member_texts ns ''  '' props \<noteq> []"
    using m by (rule member_texts_nonempty) simp
  have e: "JSON_stringify_object ns props
            = ''{'' @ [CHR 0x0A] @ ''  ''
              @ join ('','' @ [CHR 0x0A] @ ''  '') (member_texts ns ''  '' props)
              @ [CHR 0x0A] @ ''}''"
    using n by (simp add: JSON_stringify_object_def object_text_def gap_def)
  from f j p s c n e
  show "\<exists>r b props.
          fetch (getMemo_request cfg ident) = Resolved r
        \<and> resp_json r = Inr b \<and> detail_projection b = Inr props
        \<and> serialize_JSON ns [] (VObj props) = Some (JSON_stringify_object ns props)
        \<and> content res
            = [\<lparr>content_type = ''text'', content_text = JSON_stringify_object ns props\<rparr>]
        \<and> member_texts ns ''  '' props \<noteq> []
        \<and> JSON_stringify_object ns props
            = ''{'' @ [CHR 0x0A] @ ''  ''
              @ join ('','' @ [CHR 0x0A] @ ''  '') (member_texts ns ''  '' props)
              @ [CHR 0x0A] @ ''}''"
    by blast
qed

text \<open>C8 at a successful search and a successful detail request, with the texts written out.\<close>

theorem success_is_one_text_block_witness:
  \<open>searchMemos_handler int_digits acme (upstream_answering 200 ''OK'' search_body)
       ''isabelle'' None None
     = Inr \<lparr>content = [\<lparr>content_type = ''text'', content_text = join [CHR 0x0A]
         [''{'',
          ''  "memos": ['',
          ''    {'',
          ''      "id": 7,'',
          ''      "title": "Notes",'',
          ''      "url": "u7"'',
          ''    },'',
          ''    {'',
          ''      "id": 8,'',
          ''      "title": "Plan",'',
          ''      "url": "u8"'',
          ''    }'',
          ''  ],'',
          ''  "total": 40,'',
          ''  "nextPage": 2,'',
          ''  "previousPage": null'',
          ''}'']\<rparr>]\<rparr>
   \<and> (\<exists>props.
         search_projection search_body = Inr props
       \<and> searchMemos_handler int_digits acme (upstream_answering 200 ''OK'' search_body)
            ''isabelle'' None None
          = Inr \<lparr>content = [\<lparr>content_type = ''text'',
                               content_text = JSON_stringify_object int_digits props\<rparr>]\<rparr>)
   \<and> getMemoDetail_handler int_digits acme (upstream_answering 200 ''OK'' detail_body) ''7''
     = Inr \<lparr>content = [\<lparr>content_type = ''text'', content_text = join [CHR 0x0A]
         [''{'',
          ''  "id": 7,'',
          ''  "title": "Notes",'',
          ''  "body": "text",'',
          ''  "url": "u7",'',
          ''  "createdAt": "2020-01-01",'',
          ''  "updatedAt": "2020-01-02",'',
          ''  "tags": ['',
          ''    "a",'',
          ''    "b"'',
          ''  ],'',
          ''  "user": "u",'',
          ''  "groups": ['',
          ''    "g"'',
          ''  ]'',
          ''}'']\<rparr>]\<rparr>
   \<and> (\<exists>props.
         detail_projection detail_body = Inr props
       \<and> getMemoDetail_handler int_digits acme (upstream_answering 200 ''OK'' detail_body) ''7''
          = Inr \<lparr>content = [\<lparr>content_type = ''text'',
                               content_text = JSON_stringify_object int_digits props\<rparr>]\<rparr>)\<close>
  (is \<open>?A \<and> ?B \<and> ?C \<and> ?D\<close>)
proof -
  have a: ?A by code_simp
  have c: ?C by code_simp
  have g: "\<exists>props.
        search_projection search_body = Inr props
      \<and> searchMemos_handler int_digits acme (upstream_answering 200 ''OK'' search_body)
           ''isabelle'' None None
         = Inr \<lparr>content = [\<lparr>content_type = ''text'',
                              content_text = JSON_stringify_object int_digits props\<rparr>]\<rparr>"
    if "searchMemos_handler int_digits acme (upstream_answering 200 ''OK'' search_body)
          ''isabelle'' None None = Inr res" for res
    using that success_is_one_text_block
      [where fetch = "upstream_answering 200 ''OK'' search_body" and ns = int_digits
         and cfg = acme and q = "''isabelle''" and page = None and perPage = None
         and res = res, THEN conjunct1]
    by (cases res) (auto simp: upstream_answering_def simp del: serialize_JSON.simps)
  have k: "\<exists>props.
        detail_projection detail_body = Inr props
      \<and> getMemoDetail_handler int_digits acme (upstream_answering 200 ''OK'' detail_body) ''7''
         = Inr \<lparr>content = [\<lparr>content_type = ''text'',
                              content_text = JSON_stringify_object int_digits props\<rparr>]\<rparr>"
    if "getMemoDetail_handler int_digits acme (upstream_answering 200 ''OK'' detail_body) ''7''
          = Inr res" for res
    using that success_is_one_text_block
      [where fetch = "upstream_answering 200 ''OK'' detail_body" and ns = int_digits
         and cfg = acme and ident = "''7''" and res = res, THEN conjunct2]
    by (cases res) (auto simp: upstream_answering_def simp del: serialize_JSON.simps)
  have b: ?B by (rule g [OF a])
  have d: ?D by (rule k [OF c])
  from a b c d show ?thesis by (intro conjI)
qed

section \<open>What the handlers ask of the upstream\<close>

text \<open>
  The handlers hand their request to \<open>fetch\<close> and stop at its rejection. So where \<open>fetch\<close>
  rejects every request with some property, and the call ends with that very error, the
  request of the call has the property.
\<close>

lemma searchMemos_request_per_page:
  "appended_param ''per_page'' (req_url (searchMemos_request ns cfg q page perPage))
     = Some (number_toString ns (case perPage of None \<Rightarrow> Fin 20 | Some v \<Rightarrow> v))"
  by (simp add: appended_param_def searchMemos_request_params)

lemma searchMemos_request_names:
  "map fst (url_searchParams (req_url (searchMemos_request ns cfg q page perPage)))
     = [''q'', ''page'', ''per_page'']"
  by (simp add: searchMemos_request_params)

lemma posts_template_parsed:
  assumes dmn: "url_plain_segment dmn"
  shows "path_state [] []
           (drop 1 (filter (\<lambda>c. \<not> is_tab_or_newline c)
                      (strip_c0_or_space (''/teams/'' @ dmn @ ''/posts''))))
         = ([''teams'', dmn, ''posts''], None)"
proof -
  let ?input = "''/teams/'' @ dmn @ ''/posts''"
  have ns: "\<forall>c\<in>set ?input. \<not> is_c0_or_space c"
    using plain_segment_no_space [OF dmn] plain_segment_no_space [OF plain_teams]
      plain_segment_no_space [OF plain_posts] slash_not_c0 by auto
  have cl: "filter (\<lambda>c. \<not> is_tab_or_newline c) (strip_c0_or_space ?input) = ?input"
    by (rule cleanup_no_space [OF ns])
  have d1: "drop 1 ?input = ''teams'' @ CHR ''/'' # dmn @ CHR ''/'' # ''posts''" by simp
  have "path_state [] [] (''teams'' @ CHR ''/'' # dmn @ CHR ''/'' # ''posts'')
          = path_state [] [''teams''] (dmn @ CHR ''/'' # ''posts'')"
    using segment_then_slash [OF plain_teams, of "[]"] by simp
  also have "\<dots> = path_state [] [''teams'', dmn] ''posts''"
    using segment_then_slash [OF dmn, of "[''teams'']" "''posts''"] by simp
  also have "\<dots> = ([''teams'', dmn, ''posts''], None)"
    using segment_at_end [OF plain_posts, of "[''teams'', dmn]"] by simp
  finally show ?thesis
    by (simp only: cl d1)
qed

lemma post_template_parsed:
  assumes dmn: "url_plain_segment dmn" and ident: "url_plain_segment ident"
  shows "path_state [] []
           (drop 1 (filter (\<lambda>c. \<not> is_tab_or_newline c)
                      (strip_c0_or_space (''/teams/'' @ dmn @ ''/posts/'' @ ident))))
         = ([''teams'', dmn, ''posts'', ident], None)"
proof -
  let ?input = "''/teams/'' @ dmn @ ''/posts/'' @ ident"
  have ns: "\<forall>c\<in>set ?input. \<not> is_c0_or_space c"
    using plain_segment_no_space [OF dmn] plain_segment_no_space [OF plain_teams]
      plain_segment_no_space [OF plain_posts] plain_segment_no_space [OF ident] slash_not_c0
    by auto
  have cl: "filter (\<lambda>c. \<not> is_tab_or_newline c) (strip_c0_or_space ?input) = ?input"
    by (rule cleanup_no_space [OF ns])
  have d1: "drop 1 ?input = ''teams'' @ CHR ''/'' # dmn @ CHR ''/'' # ''posts'' @ CHR ''/'' # ident"
    by simp
  have "path_state [] [] (''teams'' @ CHR ''/'' # dmn @ CHR ''/'' # ''posts'' @ CHR ''/'' # ident)
          = path_state [] [''teams''] (dmn @ CHR ''/'' # ''posts'' @ CHR ''/'' # ident)"
    using segment_then_slash [OF plain_teams, of "[]"] by simp
  also have "\<dots> = path_state [] [''teams'', dmn] (''posts'' @ CHR ''/'' # ident)"
    using segment_then_slash [OF dmn, of "[''teams'']"] by simp
  also have "\<dots> = path_state [] [''teams'', dmn, ''posts''] ident"
    using segment_then_slash [OF plain_posts, of "[''teams'', dmn]"] by simp
  also have "\<dots> = ([''teams'', dmn, ''posts'', ident], None)"
    using segment_at_end [OF ident, of "[''teams'', dmn, ''posts'']"] by simp
  finally show ?thesis
    by (simp only: cl d1)
qed

text \<open>
  Claim C1. Every \<open>searchMemos\<close> call with a \<open>perPage\<close> above 100 sends \<open>per_page\<close> with
  the number 100: an upstream that refuses the requests with \<open>per_page = 100\<close> refuses the
  call. With a \<open>perPage\<close> of at most 100 it sends that number, and with \<open>perPage\<close> absent
  the handler hands it on absent, so that the request carries the default of the client.
  Under a tenant domain that is a plain path segment the request has no query but the
  three appended pairs, so this \<open>per_page\<close> is the only one. The clamp itself gives 100
  above 100 and leaves every other value, and an absent one, as it is.
\<close>

theorem per_page_clamped_to_100:
  "(js_gt p (Fin 100)
      \<and> (\<forall>req. appended_param ''per_page'' (req_url req) = Some (number_toString ns (Fin 100))
                \<longrightarrow> fetch req = Rejected (ErrorObject n m))
      \<longrightarrow> searchMemos_handler ns cfg fetch q page (Some p) = Inl (ErrorObject n m))
   \<and> (js_le p (Fin 100)
      \<and> (\<forall>req. appended_param ''per_page'' (req_url req) = Some (number_toString ns p)
                \<longrightarrow> fetch req = Rejected (ErrorObject n m))
      \<longrightarrow> searchMemos_handler ns cfg fetch q page (Some p) = Inl (ErrorObject n m))
   \<and> ((\<forall>req. appended_param ''per_page'' (req_url req) = Some (number_toString ns (Fin 20))
                \<longrightarrow> fetch req = Rejected (ErrorObject n m))
      \<longrightarrow> searchMemos_handler ns cfg fetch q page None = Inl (ErrorObject n m))
   \<and> (url_plain_segment (DOCBASE_DOMAIN cfg) \<and> js_gt p (Fin 100)
      \<and> (\<forall>req. url_query (req_url req) = None
                \<and> map fst (url_searchParams (req_url req)) = [''q'', ''page'', ''per_page'']
                \<and> appended_param ''per_page'' (req_url req) = Some (number_toString ns (Fin 100))
                \<longrightarrow> fetch req = Rejected (ErrorObject n m))
      \<longrightarrow> searchMemos_handler ns cfg fetch q page (Some p) = Inl (ErrorObject n m))
   \<and> (js_gt p (Fin 100) \<longrightarrow> limitedPerPage (Some p) = Some (Fin 100))
   \<and> (js_le p (Fin 100) \<longrightarrow> limitedPerPage (Some p) = Some p)
   \<and> limitedPerPage None = None"
proof (intro conjI impI)
  assume a: "js_gt p (Fin 100)
      \<and> (\<forall>req. appended_param ''per_page'' (req_url req) = Some (number_toString ns (Fin 100))
                \<longrightarrow> fetch req = Rejected (ErrorObject n m))"
  then have l: "limitedPerPage (Some p) = Some (Fin 100)"
    by (simp add: limitedPerPage_def js_gt_truthy)
  have r: "appended_param ''per_page'' (req_url (searchMemos_request ns cfg q page (Some (Fin 100))))
             = Some (number_toString ns (Fin 100))"
    by (simp add: appended_param_def searchMemos_request_def fetch_request_def searchParams_append_def
        new_URL_def Let_def)
  have f: "fetch (searchMemos_request ns cfg q page (Some (Fin 100))) = Rejected (ErrorObject n m)"
    using a r by simp
  show "searchMemos_handler ns cfg fetch q page (Some p) = Inl (ErrorObject n m)"
    by (simp add: searchMemos_handler_def searchMemos_try_def client_searchMemos_def l f
        rethrow_def)
next
  assume a: "js_le p (Fin 100)
      \<and> (\<forall>req. appended_param ''per_page'' (req_url req) = Some (number_toString ns p)
                \<longrightarrow> fetch req = Rejected (ErrorObject n m))"
  then have l: "limitedPerPage (Some p) = Some p"
    by (simp add: limitedPerPage_def js_le_def)
  have r: "appended_param ''per_page'' (req_url (searchMemos_request ns cfg q page (Some p)))
             = Some (number_toString ns p)"
    by (simp add: appended_param_def searchMemos_request_def fetch_request_def searchParams_append_def
        new_URL_def Let_def)
  have f: "fetch (searchMemos_request ns cfg q page (Some p)) = Rejected (ErrorObject n m)"
    using a r by simp
  show "searchMemos_handler ns cfg fetch q page (Some p) = Inl (ErrorObject n m)"
    by (simp add: searchMemos_handler_def searchMemos_try_def client_searchMemos_def l f
        rethrow_def)
next
  assume a: "\<forall>req. appended_param ''per_page'' (req_url req) = Some (number_toString ns (Fin 20))
                \<longrightarrow> fetch req = Rejected (ErrorObject n m)"
  have r: "appended_param ''per_page'' (req_url (searchMemos_request ns cfg q page None))
             = Some (number_toString ns (Fin 20))"
    by (simp add: appended_param_def searchMemos_request_def fetch_request_def searchParams_append_def
        new_URL_def Let_def)
  have f: "fetch (searchMemos_request ns cfg q page None) = Rejected (ErrorObject n m)"
    using a r by simp
  show "searchMemos_handler ns cfg fetch q page None = Inl (ErrorObject n m)"
    by (simp add: searchMemos_handler_def searchMemos_try_def client_searchMemos_def
        limitedPerPage_def f rethrow_def)
next
  assume a: "url_plain_segment (DOCBASE_DOMAIN cfg) \<and> js_gt p (Fin 100)
      \<and> (\<forall>req. url_query (req_url req) = None
                \<and> map fst (url_searchParams (req_url req)) = [''q'', ''page'', ''per_page'']
                \<and> appended_param ''per_page'' (req_url req) = Some (number_toString ns (Fin 100))
                \<longrightarrow> fetch req = Rejected (ErrorObject n m))"
  then have d: "url_plain_segment (DOCBASE_DOMAIN cfg)"
    and l: "limitedPerPage (Some p) = Some (Fin 100)"
    by (simp_all add: limitedPerPage_def js_gt_truthy)
  have u: "url_query (req_url (searchMemos_request ns cfg q page (Some (Fin 100)))) = None"
    unfolding searchMemos_request_def new_URL_def Let_def posts_template_parsed [OF d]
    by (simp add: searchParams_append_def fetch_request_def)
  have f: "fetch (searchMemos_request ns cfg q page (Some (Fin 100))) = Rejected (ErrorObject n m)"
    using a u
    by (simp add: searchMemos_request_per_page searchMemos_request_names)
  show "searchMemos_handler ns cfg fetch q page (Some p) = Inl (ErrorObject n m)"
    by (simp add: searchMemos_handler_def searchMemos_try_def client_searchMemos_def l f
        rethrow_def)
next
  show "js_gt p (Fin 100) \<Longrightarrow> limitedPerPage (Some p) = Some (Fin 100)"
    by (simp add: limitedPerPage_def js_gt_truthy)
next
  show "js_le p (Fin 100) \<Longrightarrow> limitedPerPage (Some p) = Some p"
    by (simp add: limitedPerPage_def js_le_def)
next
  show "limitedPerPage None = None" by (simp add: limitedPerPage_def)
qed

text \<open>
  C1 at \<open>perPage = 250\<close>, which is sent as \<open>100\<close> and not as \<open>250\<close>, at \<open>perPage = 30\<close>
  and at an absent \<open>perPage\<close>.
\<close>

theorem per_page_clamped_to_100_witness:
  "js_gt (Fin 250) (Fin 100)
   \<and> searchMemos_handler int_digits acme
        (upstream_probing (\<lambda>req. appended_param ''per_page'' (req_url req) = Some ''100'')
           ''per_page=100'' search_body)
        ''isabelle'' None (Some (Fin 250))
      = Inl (ErrorObject ''Probe'' ''per_page=100'')
   \<and> searchMemos_handler int_digits acme
        (upstream_probing (\<lambda>req. appended_param ''per_page'' (req_url req) = Some ''250'')
           ''per_page=250'' search_body)
        ''isabelle'' None (Some (Fin 250))
      \<noteq> Inl (ErrorObject ''Probe'' ''per_page=250'')
   \<and> js_le (Fin 30) (Fin 100)
   \<and> searchMemos_handler int_digits acme
        (upstream_probing (\<lambda>req. appended_param ''per_page'' (req_url req) = Some ''30'')
           ''per_page=30'' search_body)
        ''isabelle'' None (Some (Fin 30))
      = Inl (ErrorObject ''Probe'' ''per_page=30'')
   \<and> searchMemos_handler int_digits acme
        (upstream_probing (\<lambda>req. appended_param ''per_page'' (req_url req) = Some ''20'')
           ''per_page=20'' search_body)
        ''isabelle'' None None
      = Inl (ErrorObject ''Probe'' ''per_page=20'')
   \<and> url_plain_segment (DOCBASE_DOMAIN acme)
   \<and> searchMemos_handler int_digits acme
        (upstream_probing
           (\<lambda>req. url_query (req_url req) = None
               \<and> map fst (url_searchParams (req_url req)) = [''q'', ''page'', ''per_page'']
               \<and> appended_param ''per_page'' (req_url req) = Some ''100'')
           ''the only per_page is 100'' search_body)
        ''isabelle'' None (Some (Fin 250))
      = Inl (ErrorObject ''Probe'' ''the only per_page is 100'')
   \<and> limitedPerPage (Some (Fin 250)) = Some (Fin 100)
   \<and> limitedPerPage (Some (Fin 30)) = Some (Fin 30)"
proof -
  have d: "int_digits 100 = ''100''" "int_digits 30 = ''30''" "int_digits 20 = ''20''"
    by code_simp+
  have g: "js_gt (Fin 250) (Fin 100)" by simp
  have l: "js_le (Fin 30) (Fin 100)" by (simp add: js_le_def)
  have a: "url_plain_segment (DOCBASE_DOMAIN acme)" by code_simp
  have x: "searchMemos_handler int_digits acme
        (upstream_probing (\<lambda>req. appended_param ''per_page'' (req_url req) = Some ''250'')
           ''per_page=250'' search_body)
        ''isabelle'' None (Some (Fin 250))
      \<noteq> Inl (ErrorObject ''Probe'' ''per_page=250'')"
    by code_simp
  note t = per_page_clamped_to_100
    [where ns = int_digits and cfg = acme and q = "''isabelle''" and page = None]
  show ?thesis
    using g l a x
      t [where p = "Fin 250" and n = "''Probe''" and m = "''per_page=100''"
         and fetch = "upstream_probing
           (\<lambda>req. appended_param ''per_page'' (req_url req) = Some ''100'')
           ''per_page=100'' search_body"]
      t [where p = "Fin 30" and n = "''Probe''" and m = "''per_page=30''"
         and fetch = "upstream_probing
           (\<lambda>req. appended_param ''per_page'' (req_url req) = Some ''30'')
           ''per_page=30'' search_body"]
      t [where p = "Fin 30" and n = "''Probe''" and m = "''per_page=20''"
         and fetch = "upstream_probing
           (\<lambda>req. appended_param ''per_page'' (req_url req) = Some ''20'')
           ''per_page=20'' search_body"]
      t [where p = "Fin 250" and n = "''Probe''" and m = "''the only per_page is 100''"
         and fetch = "upstream_probing
           (\<lambda>req. url_query (req_url req) = None
               \<and> map fst (url_searchParams (req_url req)) = [''q'', ''page'', ''per_page'']
               \<and> appended_param ''per_page'' (req_url req) = Some ''100'')
           ''the only per_page is 100'' search_body"]
    by (simp add: d upstream_probing_def)
qed

text \<open>
  Claim C10. Every \<open>searchMemos\<close> call without \<open>page\<close> sends \<open>page\<close> with the number 1,
  every call without \<open>perPage\<close> sends \<open>per_page\<close> with the number 20, and whatever the
  arguments are, the pairs appended to the URL are \<open>q\<close>, \<open>page\<close> and \<open>per_page\<close>, in
  this order: an upstream that refuses the requests of that kind refuses the call.
\<close>

theorem absent_page_and_perPage_take_defaults:
  "((\<forall>req. appended_param ''page'' (req_url req) = Some (number_toString ns (Fin 1))
            \<longrightarrow> fetch req = Rejected (ErrorObject n m))
      \<longrightarrow> searchMemos_handler ns cfg fetch q None perPage = Inl (ErrorObject n m))
   \<and> ((\<forall>req. appended_param ''per_page'' (req_url req) = Some (number_toString ns (Fin 20))
            \<longrightarrow> fetch req = Rejected (ErrorObject n m))
      \<longrightarrow> searchMemos_handler ns cfg fetch q page None = Inl (ErrorObject n m))
   \<and> ((\<forall>req. map fst (url_searchParams (req_url req)) = [''q'', ''page'', ''per_page'']
            \<longrightarrow> fetch req = Rejected (ErrorObject n m))
      \<longrightarrow> searchMemos_handler ns cfg fetch q page perPage = Inl (ErrorObject n m))"
proof (intro conjI impI)
  assume a: "\<forall>req. appended_param ''page'' (req_url req) = Some (number_toString ns (Fin 1))
            \<longrightarrow> fetch req = Rejected (ErrorObject n m)"
  have r: "appended_param ''page''
             (req_url (searchMemos_request ns cfg q None (limitedPerPage perPage)))
             = Some (number_toString ns (Fin 1))"
    by (simp add: appended_param_def searchMemos_request_def fetch_request_def searchParams_append_def
        new_URL_def Let_def)
  have f: "fetch (searchMemos_request ns cfg q None (limitedPerPage perPage))
             = Rejected (ErrorObject n m)"
    using a r by simp
  show "searchMemos_handler ns cfg fetch q None perPage = Inl (ErrorObject n m)"
    by (simp add: searchMemos_handler_def searchMemos_try_def client_searchMemos_def f
        rethrow_def)
next
  assume a: "\<forall>req. appended_param ''per_page'' (req_url req) = Some (number_toString ns (Fin 20))
            \<longrightarrow> fetch req = Rejected (ErrorObject n m)"
  have r: "appended_param ''per_page'' (req_url (searchMemos_request ns cfg q page None))
             = Some (number_toString ns (Fin 20))"
    by (simp add: appended_param_def searchMemos_request_def fetch_request_def searchParams_append_def
        new_URL_def Let_def)
  have f: "fetch (searchMemos_request ns cfg q page None) = Rejected (ErrorObject n m)"
    using a r by simp
  show "searchMemos_handler ns cfg fetch q page None = Inl (ErrorObject n m)"
    by (simp add: searchMemos_handler_def searchMemos_try_def client_searchMemos_def
        limitedPerPage_def f rethrow_def)
next
  assume a: "\<forall>req. map fst (url_searchParams (req_url req)) = [''q'', ''page'', ''per_page'']
            \<longrightarrow> fetch req = Rejected (ErrorObject n m)"
  have r: "map fst (url_searchParams
             (req_url (searchMemos_request ns cfg q page (limitedPerPage perPage))))
             = [''q'', ''page'', ''per_page'']"
    by (simp add: searchMemos_request_def fetch_request_def searchParams_append_def
        new_URL_def Let_def)
  have f: "fetch (searchMemos_request ns cfg q page (limitedPerPage perPage))
             = Rejected (ErrorObject n m)"
    using a r by simp
  show "searchMemos_handler ns cfg fetch q page perPage = Inl (ErrorObject n m)"
    by (simp add: searchMemos_handler_def searchMemos_try_def client_searchMemos_def f
        rethrow_def)
qed

text \<open>C10 at a call with neither \<open>page\<close> nor \<open>perPage\<close>: the request carries \<open>1\<close> and \<open>20\<close>.\<close>

theorem absent_page_and_perPage_take_defaults_witness:
  "searchMemos_handler int_digits acme
     (upstream_probing (\<lambda>req. appended_param ''page'' (req_url req) = Some ''1'')
        ''page=1'' search_body)
     ''isabelle'' None None
   = Inl (ErrorObject ''Probe'' ''page=1'')
   \<and> searchMemos_handler int_digits acme
        (upstream_probing (\<lambda>req. appended_param ''per_page'' (req_url req) = Some ''20'')
           ''per_page=20'' search_body)
        ''isabelle'' None None
      = Inl (ErrorObject ''Probe'' ''per_page=20'')
   \<and> searchMemos_handler int_digits acme
        (upstream_probing
           (\<lambda>req. map fst (url_searchParams (req_url req)) = [''q'', ''page'', ''per_page''])
           ''q, page, per_page'' search_body)
        ''isabelle'' None None
      = Inl (ErrorObject ''Probe'' ''q, page, per_page'')
   \<and> url_searchParams (req_url (searchMemos_request int_digits acme ''isabelle'' None None))
      = [(''q'', ''isabelle''), (''page'', ''1''), (''per_page'', ''20'')]"
proof -
  have d: "int_digits 1 = ''1''" "int_digits 20 = ''20''"
    by code_simp+
  have r: "url_searchParams (req_url (searchMemos_request int_digits acme ''isabelle'' None None))
      = [(''q'', ''isabelle''), (''page'', ''1''), (''per_page'', ''20'')]"
    by (simp add: searchMemos_request_params d)
  note t = absent_page_and_perPage_take_defaults
    [where ns = int_digits and cfg = acme and q = "''isabelle''" and page = None
       and perPage = None and n = "''Probe''"]
  show ?thesis
    using r
      t [where m = "''page=1''"
         and fetch = "upstream_probing
           (\<lambda>req. appended_param ''page'' (req_url req) = Some ''1'') ''page=1'' search_body"]
      t [where m = "''per_page=20''"
         and fetch = "upstream_probing
           (\<lambda>req. appended_param ''per_page'' (req_url req) = Some ''20'')
           ''per_page=20'' search_body"]
      t [where m = "''q, page, per_page''"
         and fetch = "upstream_probing
           (\<lambda>req. map fst (url_searchParams (req_url req)) = [''q'', ''page'', ''per_page''])
           ''q, page, per_page'' search_body"]
    by (simp add: d upstream_probing_def)
qed

section \<open>The projections\<close>

lemma js_get_readable: "readable v \<Longrightarrow> js_get v name = Inr (field v name)"
  by (cases v) (simp_all add: readable_def field_def)

lemma js_get_VObj: "js_get (VObj props) name = Inr (field (VObj props) name)"
  by (simp add: field_def)

lemma js_get2_readable:
  "readable v \<Longrightarrow> readable (field v a) \<Longrightarrow> js_get2 v a b = Inr (field (field v a) b)"
  by (simp add: js_get2_def js_get_readable)

lemma map_throwing_total:
  "\<forall>x\<in>set xs. f x = Inr (g x) \<Longrightarrow> map_throwing f xs = Inr (map g xs)"
  by (induction xs) simp_all

lemma project_post_readable: "readable post \<Longrightarrow> project_post post = Inr (memo_of post)"
  by (simp add: project_post_def memo_of_def js_get_readable)

lemma field_VArr_readable: "field v name = VArr xs \<Longrightarrow> readable v"
  by (cases v) (simp_all add: field_def readable_def)

lemma search_projection_shaped:
  assumes posts: "field b ''posts'' = VArr posts"
    and els: "list_all readable posts"
    and meta: "readable (field b ''meta'')"
  shows "search_projection b =
           Inr [(''memos'', VArr (map memo_of posts)),
                (''total'', field (field b ''meta'') ''total''),
                (''nextPage'', field (field b ''meta'') ''next_page''),
                (''previousPage'', field (field b ''meta'') ''previous_page'')]"
proof -
  have rb: "readable b" using posts by (rule field_VArr_readable)
  have m: "map_throwing project_post posts = Inr (map memo_of posts)"
    using els by (intro map_throwing_total) (simp add: list_all_iff project_post_readable)
  show ?thesis
    by (simp add: search_projection_def js_get_readable [OF rb] posts m
        js_get2_readable [OF rb meta])
qed

text \<open>
  Claim C2, as amended. Where the upstream answers a search with a body whose \<open>posts\<close>
  is an array of \<open>N\<close> elements, none of them \<open>null\<close>, and whose \<open>meta\<close> has
  \<open>total = T\<close>, \<open>next_page = P\<close> and \<open>previous_page = Q\<close>, the result is the text of
  the object with \<open>memos\<close>, \<open>total = T\<close>, \<open>nextPage = P\<close> and \<open>previousPage = Q\<close>,
  where \<open>memos\<close> has \<open>N\<close> elements and the \<open>i\<close>-th is the object of \<open>id\<close>,
  \<open>title\<close> and \<open>url\<close> of the \<open>i\<close>-th post (a property that the post lacks is
  \<open>undefined\<close>, which the text leaves out).
\<close>

theorem search_result_projects_posts_and_meta:
  assumes "fetch (searchMemos_handler_request ns cfg q page perPage) = Resolved r"
    and "response_ok r"
    and "resp_json r = Inr b"
    and "field b ''posts'' = VArr posts"
    and "list_all readable posts"
    and "readable (field b ''meta'')"
    and "field (field b ''meta'') ''total'' = T"
    and "field (field b ''meta'') ''next_page'' = P"
    and "field (field b ''meta'') ''previous_page'' = Q"
  shows "searchMemos_handler ns cfg fetch q page perPage =
           Inr (text_result (JSON_stringify_object ns
                  [(''memos'', VArr (map memo_of posts)), (''total'', T), (''nextPage'', P),
                   (''previousPage'', Q)]))
         \<and> length (map memo_of posts) = length posts
         \<and> (\<forall>i < length posts. map memo_of posts ! i =
               VObj [(''id'', field (posts ! i) ''id''), (''title'', field (posts ! i) ''title''),
                     (''url'', field (posts ! i) ''url'')])"
proof -
  have "searchMemos_try ns cfg fetch q page perPage =
          Inr (text_result (JSON_stringify_object ns
                  [(''memos'', VArr (map memo_of posts)), (''total'', T), (''nextPage'', P),
                   (''previousPage'', Q)]))"
    using assms(7-9)
    by (simp add: searchMemos_try_resolved [where fetch = fetch, OF assms(1,2)] assms(3)
        search_projection_shaped [OF assms(4-6)])
  then show ?thesis
    by (simp add: searchMemos_handler_def memo_of_def)
qed

text \<open>C2 as amended, at a body with two posts.\<close>

theorem search_result_projects_posts_and_meta_witness:
  "response_ok \<lparr>resp_status = 200, resp_statusText = ''OK'', resp_json = Inr search_body\<rparr>
   \<and> field search_body ''posts'' = VArr two_posts
   \<and> list_all readable two_posts
   \<and> readable (field search_body ''meta'')
   \<and> searchMemos_handler int_digits acme (upstream_answering 200 ''OK'' search_body)
        ''isabelle'' None None
      = Inr (text_result (JSON_stringify_object int_digits
               [(''memos'', VArr (map memo_of two_posts)), (''total'', VNum (Fin 40)),
                (''nextPage'', VNum (Fin 2)), (''previousPage'', VNull)]))
   \<and> length (map memo_of two_posts) = 2"
proof -
  let ?r = "\<lparr>resp_status = 200, resp_statusText = ''OK'', resp_json = Inr search_body\<rparr>"
  have f: "upstream_answering 200 ''OK'' search_body
             (searchMemos_handler_request int_digits acme ''isabelle'' None None) = Resolved ?r"
    by (simp add: upstream_answering_def)
  have ok: "response_ok ?r" by (simp add: response_ok_def)
  have j: "resp_json ?r = Inr search_body" by simp
  have p: "field search_body ''posts'' = VArr two_posts"
    by (simp add: field_def search_body_def)
  have e: "list_all readable two_posts"
    by (simp add: two_posts_def readable_def)
  have m: "readable (field search_body ''meta'')"
    by (simp add: field_def search_body_def readable_def)
  have t: "field (field search_body ''meta'') ''total'' = VNum (Fin 40)"
    by (simp add: field_def search_body_def)
  have n: "field (field search_body ''meta'') ''next_page'' = VNum (Fin 2)"
    by (simp add: field_def search_body_def)
  have q: "field (field search_body ''meta'') ''previous_page'' = VNull"
    by (simp add: field_def search_body_def)
  have l: "length two_posts = 2" by (simp add: two_posts_def)
  show ?thesis
    using search_result_projects_posts_and_meta
        [where fetch = "upstream_answering 200 ''OK'' search_body" and ns = int_digits
           and cfg = acme and q = "''isabelle''" and page = None and perPage = None,
         OF f ok j p e m t n q] ok p e m l
    by simp
qed

text \<open>
  Claim C2 as it is written fails where an element of \<open>posts\<close> is \<open>null\<close>: the body has
  a \<open>posts\<close> array of one element and a \<open>meta\<close> object with the three fields, and the
  callback of \<open>map\<close> throws a \<open>TypeError\<close> at \<open>post.id\<close>, so the call fails.
\<close>

theorem null_post_counterexample:
  "field search_body_null_post ''posts'' = VArr [VNull]
   \<and> field search_body_null_post ''meta''
       = VObj [(''previous_page'', VNull), (''next_page'', VNull), (''total'', VNum (Fin 1))]
   \<and> searchMemos_handler int_digits acme (upstream_answering 200 ''OK'' search_body_null_post)
        ''isabelle'' None None = Inl EngineTypeError"
  by code_simp

lemma detail_projection_shaped:
  assumes tags: "field memo ''tags'' = VArr tags"
    and tels: "list_all readable tags"
    and groups: "field memo ''groups'' = VArr groups"
    and gels: "list_all readable groups"
    and user: "readable (field memo ''user'')"
  shows "detail_projection memo =
           Inr [(''id'', field memo ''id''), (''title'', field memo ''title''),
                (''body'', field memo ''body''), (''url'', field memo ''url''),
                (''createdAt'', field memo ''created_at''),
                (''updatedAt'', field memo ''updated_at''),
                (''tags'', VArr (map (\<lambda>tag. field tag ''name'') tags)),
                (''user'', field (field memo ''user'') ''name''),
                (''groups'', VArr (map (\<lambda>group. field group ''name'') groups))]"
proof -
  have rm: "readable memo" using tags by (rule field_VArr_readable)
  have t: "map_throwing (\<lambda>tag. js_get tag ''name'') tags
             = Inr (map (\<lambda>tag. field tag ''name'') tags)"
    using tels by (intro map_throwing_total) (simp add: list_all_iff js_get_readable)
  have g: "map_throwing (\<lambda>group. js_get group ''name'') groups
             = Inr (map (\<lambda>group. field group ''name'') groups)"
    using gels by (intro map_throwing_total) (simp add: list_all_iff js_get_readable)
  show ?thesis
    by (simp add: detail_projection_def js_get_readable [OF rm] tags groups t g
        js_get2_readable [OF rm user])
qed

text \<open>
  Claim C3, as amended. Where the upstream answers a detail request with a record whose
  \<open>tags\<close> and \<open>groups\<close> are arrays without \<open>null\<close> elements and whose \<open>user\<close> is
  neither \<open>null\<close> nor missing, the result is the
  text of the object with \<open>id\<close>, \<open>title\<close>, \<open>body\<close>, \<open>url\<close>, \<open>createdAt\<close> (from
  \<open>created_at\<close>), \<open>updatedAt\<close> (from \<open>updated_at\<close>), \<open>tags\<close> with the \<open>name\<close> of
  each tag in order, \<open>user\<close> with \<open>user.name\<close>, and \<open>groups\<close> with the \<open>name\<close> of
  each group in order.
\<close>

theorem detail_result_flattens_names:
  assumes "fetch (getMemo_request cfg ident) = Resolved r"
    and "response_ok r"
    and "resp_json r = Inr memo"
    and "field memo ''tags'' = VArr tags"
    and "list_all readable tags"
    and "field memo ''groups'' = VArr groups"
    and "list_all readable groups"
    and "readable (field memo ''user'')"
  shows "getMemoDetail_handler ns cfg fetch ident =
           Inr (text_result (JSON_stringify_object ns
                  [(''id'', field memo ''id''), (''title'', field memo ''title''),
                   (''body'', field memo ''body''), (''url'', field memo ''url''),
                   (''createdAt'', field memo ''created_at''),
                   (''updatedAt'', field memo ''updated_at''),
                   (''tags'', VArr (map (\<lambda>tag. field tag ''name'') tags)),
                   (''user'', field (field memo ''user'') ''name''),
                   (''groups'', VArr (map (\<lambda>group. field group ''name'') groups))]))"
proof -
  have "getMemoDetail_try ns cfg fetch ident =
           Inr (text_result (JSON_stringify_object ns
                  [(''id'', field memo ''id''), (''title'', field memo ''title''),
                   (''body'', field memo ''body''), (''url'', field memo ''url''),
                   (''createdAt'', field memo ''created_at''),
                   (''updatedAt'', field memo ''updated_at''),
                   (''tags'', VArr (map (\<lambda>tag. field tag ''name'') tags)),
                   (''user'', field (field memo ''user'') ''name''),
                   (''groups'', VArr (map (\<lambda>group. field group ''name'') groups))]))"
    by (simp add: getMemoDetail_try_resolved [where fetch = fetch, OF assms(1,2)] assms(3)
        detail_projection_shaped [OF assms(4-8)])
  then show ?thesis
    by (simp add: getMemoDetail_handler_def)
qed

text \<open>
  C3 as amended, at a record with the tags \<open>a\<close> and \<open>b\<close>, the group \<open>g\<close> and the user \<open>u\<close>.
\<close>

theorem detail_result_flattens_names_witness:
  "response_ok \<lparr>resp_status = 200, resp_statusText = ''OK'', resp_json = Inr detail_body\<rparr>
   \<and> field detail_body ''tags'' = VArr [VObj [(''name'', VStr ''a'')], VObj [(''name'', VStr ''b'')]]
   \<and> field detail_body ''groups'' = VArr [VObj [(''id'', VNum (Fin 3)), (''name'', VStr ''g'')]]
   \<and> readable (field detail_body ''user'')
   \<and> getMemoDetail_handler int_digits acme (upstream_answering 200 ''OK'' detail_body) ''7''
      = Inr (text_result (JSON_stringify_object int_digits
               [(''id'', VNum (Fin 7)), (''title'', VStr ''Notes''), (''body'', VStr ''text''),
                (''url'', VStr ''u7''), (''createdAt'', VStr ''2020-01-01''),
                (''updatedAt'', VStr ''2020-01-02''),
                (''tags'', VArr [VStr ''a'', VStr ''b'']), (''user'', VStr ''u''),
                (''groups'', VArr [VStr ''g''])]))"
proof -
  let ?r = "\<lparr>resp_status = 200, resp_statusText = ''OK'', resp_json = Inr detail_body\<rparr>"
  let ?tags = "[VObj [(''name'', VStr ''a'')], VObj [(''name'', VStr ''b'')]]"
  let ?groups = "[VObj [(''id'', VNum (Fin 3)), (''name'', VStr ''g'')]]"
  have f: "upstream_answering 200 ''OK'' detail_body (getMemo_request acme ''7'') = Resolved ?r"
    by (simp add: upstream_answering_def)
  have ok: "response_ok ?r" by (simp add: response_ok_def)
  have j: "resp_json ?r = Inr detail_body" by simp
  have t: "field detail_body ''tags'' = VArr ?tags"
    by (simp add: field_def detail_body_def)
  have te: "list_all readable ?tags" by (simp add: readable_def)
  have g: "field detail_body ''groups'' = VArr ?groups"
    by (simp add: field_def detail_body_def)
  have ge: "list_all readable ?groups" by (simp add: readable_def)
  have u: "readable (field detail_body ''user'')"
    by (simp add: field_def detail_body_def readable_def)
  have v: "field detail_body ''id'' = VNum (Fin 7)" "field detail_body ''title'' = VStr ''Notes''"
    "field detail_body ''body'' = VStr ''text''" "field detail_body ''url'' = VStr ''u7''"
    "field detail_body ''created_at'' = VStr ''2020-01-01''"
    "field detail_body ''updated_at'' = VStr ''2020-01-02''"
    "field (field detail_body ''user'') ''name'' = VStr ''u''"
    by (simp_all add: field_def detail_body_def)
  have n: "map (\<lambda>tag. field tag ''name'') ?tags = [VStr ''a'', VStr ''b'']"
    "map (\<lambda>group. field group ''name'') ?groups = [VStr ''g'']"
    by (simp_all add: field_def)
  show ?thesis
    using detail_result_flattens_names
        [where fetch = "upstream_answering 200 ''OK'' detail_body" and ns = int_digits
           and cfg = acme and ident = "''7''", OF f ok j t te g ge u] ok t g u
    by (simp only: v n simp_thms)
qed

text \<open>
  Claim C3 as it is written fails at a record whose \<open>user\<close> is \<open>null\<close>: reading
  \<open>memo.user.name\<close> throws a \<open>TypeError\<close>, so the call fails.
\<close>

theorem null_user_counterexample:
  "getMemoDetail_handler int_digits acme (upstream_answering 200 ''OK'' detail_body_null_user) ''7''
     = Inl EngineTypeError"
  by code_simp

section \<open>Page and id on their way to the upstream\<close>

text \<open>An upstream that answers with the sample bodies is served whatever the arguments.\<close>

lemma search_answered:
  "searchMemos_handler ns cfg (upstream_answering 200 ''OK'' search_body) q page perPage =
     Inr (text_result (JSON_stringify_object ns
            [(''memos'', VArr (map memo_of two_posts)), (''total'', VNum (Fin 40)),
             (''nextPage'', VNum (Fin 2)), (''previousPage'', VNull)]))"
proof -
  have p: "field search_body ''posts'' = VArr two_posts"
    by (simp add: field_def search_body_def)
  have e: "list_all readable two_posts"
    by (simp add: two_posts_def readable_def)
  have m: "readable (field search_body ''meta'')"
    by (simp add: field_def search_body_def readable_def)
  have v: "field (field search_body ''meta'') ''total'' = VNum (Fin 40)"
    "field (field search_body ''meta'') ''next_page'' = VNum (Fin 2)"
    "field (field search_body ''meta'') ''previous_page'' = VNull"
    by (simp_all add: field_def search_body_def)
  have "searchMemos_try ns cfg (upstream_answering 200 ''OK'' search_body) q page perPage =
     Inr (text_result (JSON_stringify_object ns
            [(''memos'', VArr (map memo_of two_posts)), (''total'', VNum (Fin 40)),
             (''nextPage'', VNum (Fin 2)), (''previousPage'', VNull)]))"
    by (simp add: searchMemos_try_def client_searchMemos_def upstream_answering_def
        response_ok_def search_projection_shaped [OF p e m] v)
  then show ?thesis by (simp add: searchMemos_handler_def)
qed

lemma detail_answered:
  "\<exists>res. getMemoDetail_handler ns cfg (upstream_answering 200 ''OK'' detail_body) ident = Inr res"
proof -
  let ?tags = "[VObj [(''name'', VStr ''a'')], VObj [(''name'', VStr ''b'')]]"
  let ?groups = "[VObj [(''id'', VNum (Fin 3)), (''name'', VStr ''g'')]]"
  have t: "field detail_body ''tags'' = VArr ?tags"
    by (simp add: field_def detail_body_def)
  have te: "list_all readable ?tags" by (simp add: readable_def)
  have g: "field detail_body ''groups'' = VArr ?groups"
    by (simp add: field_def detail_body_def)
  have ge: "list_all readable ?groups" by (simp add: readable_def)
  have u: "readable (field detail_body ''user'')"
    by (simp add: field_def detail_body_def readable_def)
  show ?thesis
    by (simp add: getMemoDetail_handler_def getMemoDetail_try_def client_getMemo_def
        upstream_answering_def response_ok_def detail_projection_shaped [OF t te g ge u])
qed

text \<open>
  Claim C9, as amended. Every \<open>searchMemos\<close> call with a \<open>page\<close>, whatever number it is
  (zero, negative, not integral), sends \<open>page\<close> with that number, and no \<open>page\<close> keeps the
  call from succeeding. No \<open>id\<close> keeps a \<open>getMemoDetail\<close> call from succeeding either, and
  where the \<open>id\<close> and the tenant domain are plain path segments, the request goes to the
  path \<open>/teams/{domain}/posts/{id}\<close> with the \<open>id\<close> unchanged and has no query.
\<close>

theorem page_and_plain_id_pass_unchanged:
  "((\<forall>req. appended_param ''page'' (req_url req) = Some (number_toString ns p)
            \<longrightarrow> fetch req = Rejected (ErrorObject n m))
      \<longrightarrow> searchMemos_handler ns cfg fetch q (Some p) perPage = Inl (ErrorObject n m))
   \<and> (\<exists>res. searchMemos_handler ns cfg (upstream_answering 200 ''OK'' search_body)
                q (Some p) perPage = Inr res)
   \<and> (url_plain_segment (DOCBASE_DOMAIN cfg) \<and> url_plain_segment ident
      \<and> (\<forall>req. url_pathname (req_url req) = ''/teams/'' @ DOCBASE_DOMAIN cfg @ ''/posts/'' @ ident
                \<and> url_query (req_url req) = None
                \<longrightarrow> fetch req = Rejected (ErrorObject n m))
      \<longrightarrow> getMemoDetail_handler ns cfg fetch ident = Inl (ErrorObject n m))
   \<and> (\<exists>res. getMemoDetail_handler ns cfg (upstream_answering 200 ''OK'' detail_body) ident
              = Inr res)"
proof (intro conjI impI)
  assume a: "\<forall>req. appended_param ''page'' (req_url req) = Some (number_toString ns p)
            \<longrightarrow> fetch req = Rejected (ErrorObject n m)"
  have r: "appended_param ''page''
             (req_url (searchMemos_request ns cfg q (Some p) (limitedPerPage perPage)))
             = Some (number_toString ns p)"
    by (simp add: appended_param_def searchMemos_request_def fetch_request_def searchParams_append_def
        new_URL_def Let_def)
  have f: "fetch (searchMemos_request ns cfg q (Some p) (limitedPerPage perPage))
             = Rejected (ErrorObject n m)"
    using a r by simp
  show "searchMemos_handler ns cfg fetch q (Some p) perPage = Inl (ErrorObject n m)"
    by (simp add: searchMemos_handler_def searchMemos_try_def client_searchMemos_def f
        rethrow_def)
next
  show "\<exists>res. searchMemos_handler ns cfg (upstream_answering 200 ''OK'' search_body)
                q (Some p) perPage = Inr res"
    by (simp add: search_answered)
next
  assume a: "url_plain_segment (DOCBASE_DOMAIN cfg) \<and> url_plain_segment ident
      \<and> (\<forall>req. url_pathname (req_url req) = ''/teams/'' @ DOCBASE_DOMAIN cfg @ ''/posts/'' @ ident
                \<and> url_query (req_url req) = None
                \<longrightarrow> fetch req = Rejected (ErrorObject n m))"
  then have d: "url_plain_segment (DOCBASE_DOMAIN cfg)" and i: "url_plain_segment ident"
    by simp_all
  have u: "url_pathname (req_url (getMemo_request cfg ident))
             = ''/teams/'' @ DOCBASE_DOMAIN cfg @ ''/posts/'' @ ident
           \<and> url_query (req_url (getMemo_request cfg ident)) = None"
    unfolding getMemo_request_def new_URL_def Let_def post_template_parsed [OF d i]
    by (simp add: fetch_request_def serialize_path_def)
  have f: "fetch (getMemo_request cfg ident) = Rejected (ErrorObject n m)"
    using a u by simp
  show "getMemoDetail_handler ns cfg fetch ident = Inl (ErrorObject n m)"
    by (simp add: getMemoDetail_handler_def getMemoDetail_try_def client_getMemo_def f
        rethrow_def)
next
  show "\<exists>res. getMemoDetail_handler ns cfg (upstream_answering 200 ''OK'' detail_body) ident
              = Inr res"
    by (rule detail_answered)
qed

text \<open>
  C9 as amended, at the pages \<open>2.5\<close>, \<open>0\<close> and \<open>-3\<close> and at the id \<open>12\<close>.
\<close>

theorem page_and_plain_id_pass_unchanged_witness:
  "searchMemos_handler decimal_digits acme
     (upstream_probing (\<lambda>req. appended_param ''page'' (req_url req) = Some ''2.5'')
        ''page=2.5'' search_body)
     ''isabelle'' (Some (Fin (5 / 2))) None
   = Inl (ErrorObject ''Probe'' ''page=2.5'')
   \<and> searchMemos_handler decimal_digits acme
        (upstream_probing (\<lambda>req. appended_param ''page'' (req_url req) = Some ''0'')
           ''page=0'' search_body)
        ''isabelle'' (Some (Fin 0)) None
      = Inl (ErrorObject ''Probe'' ''page=0'')
   \<and> searchMemos_handler decimal_digits acme
        (upstream_probing (\<lambda>req. appended_param ''page'' (req_url req) = Some ''-3'')
           ''page=-3'' search_body)
        ''isabelle'' (Some (Fin (- 3))) None
      = Inl (ErrorObject ''Probe'' ''page=-3'')
   \<and> url_plain_segment (DOCBASE_DOMAIN acme) \<and> url_plain_segment ''12''
   \<and> getMemoDetail_handler decimal_digits acme
        (upstream_probing
           (\<lambda>req. url_pathname (req_url req) = ''/teams/acme/posts/12''
               \<and> url_query (req_url req) = None)
           ''/teams/acme/posts/12'' detail_body)
        ''12''
      = Inl (ErrorObject ''Probe'' ''/teams/acme/posts/12'')"
proof -
  have d: "decimal_digits (5 / 2) = ''2.5''" "decimal_digits 0 = ''0''"
    "decimal_digits (- 3) = ''-3''"
    by code_simp+
  have a: "url_plain_segment (DOCBASE_DOMAIN acme)" by code_simp
  have b: "url_plain_segment ''12''" by code_simp
  have c: "DOCBASE_DOMAIN acme = ''acme''" by (simp add: acme_def)
  note t = page_and_plain_id_pass_unchanged
    [where ns = decimal_digits and cfg = acme and q = "''isabelle''" and perPage = None
       and n = "''Probe''" and ident = "''12''"]
  show ?thesis
    using a b
      t [where p = "Fin (5 / 2)" and m = "''page=2.5''"
         and fetch = "upstream_probing
           (\<lambda>req. appended_param ''page'' (req_url req) = Some ''2.5'') ''page=2.5'' search_body"]
      t [where p = "Fin 0" and m = "''page=0''"
         and fetch = "upstream_probing
           (\<lambda>req. appended_param ''page'' (req_url req) = Some ''0'') ''page=0'' search_body"]
      t [where p = "Fin (- 3)" and m = "''page=-3''"
         and fetch = "upstream_probing
           (\<lambda>req. appended_param ''page'' (req_url req) = Some ''-3'') ''page=-3'' search_body"]
      t [where p = "Fin 0" and m = "''/teams/acme/posts/12''"
         and fetch = "upstream_probing
           (\<lambda>req. url_pathname (req_url req) = ''/teams/acme/posts/12''
               \<and> url_query (req_url req) = None)
           ''/teams/acme/posts/12'' detail_body"]
    by (simp add: d c upstream_probing_def)
qed

text \<open>
  Claim C9 as it is written fails at the id \<open>../../x\<close>: the URL constructor resolves the
  dot segments, so the request does not go to a path with the \<open>id\<close> in it but to
  \<open>/teams/x\<close>.
\<close>

theorem id_with_dot_segments_counterexample:
  "url_pathname (req_url (getMemo_request acme ''../../x'')) = ''/teams/x''
   \<and> url_pathname (req_url (getMemo_request acme ''../../x''))
       \<noteq> ''/teams/'' @ DOCBASE_DOMAIN acme @ ''/posts/'' @ ''../../x''
   \<and> getMemoDetail_handler int_digits acme
        (upstream_refusing_path ''/teams/x'' detail_body)
        ''../../x''
      = Inl (ErrorObject ''Probe'' ''/teams/x'')"
  by code_simp

section \<open>Start of the process\<close>

text \<open>
  Claim C5. Where \<open>DOCBASE_TOKEN\<close> or \<open>DOCBASE_DOMAIN\<close> is unset or empty, the process
  exits with status 1, has printed the message for the missing variable, and the server
  has been neither constructed nor connected.
\<close>

theorem missing_environment_exits:
  "env ''DOCBASE_TOKEN'' = None \<or> env ''DOCBASE_TOKEN'' = Some []
     \<or> env ''DOCBASE_DOMAIN'' = None \<or> env ''DOCBASE_DOMAIN'' = Some [] \<Longrightarrow>
   exit_code (startup env connect_failure) = Some 1
   \<and> (console_error (startup env connect_failure) = [Line token_missing_message]
        \<or> console_error (startup env connect_failure) = [Line domain_missing_message])
   \<and> \<not> server_constructed (startup env connect_failure)
   \<and> \<not> server_connected (startup env connect_failure)"
  by (auto simp: startup_def env_falsy_def split: option.splits)

text \<open>C5 at an environment with a token and no domain.\<close>

theorem missing_environment_exits_witness:
  "(Map.empty(''DOCBASE_TOKEN'' \<mapsto> ''secret'')) ''DOCBASE_DOMAIN'' = None
   \<and> exit_code (startup (Map.empty(''DOCBASE_TOKEN'' \<mapsto> ''secret'')) None) = Some 1
   \<and> console_error (startup (Map.empty(''DOCBASE_TOKEN'' \<mapsto> ''secret'')) None)
       = [Line domain_missing_message]
   \<and> \<not> server_constructed (startup (Map.empty(''DOCBASE_TOKEN'' \<mapsto> ''secret'')) None)
   \<and> \<not> server_connected (startup (Map.empty(''DOCBASE_TOKEN'' \<mapsto> ''secret'')) None)"
proof -
  have a: "(Map.empty(''DOCBASE_TOKEN'' \<mapsto> ''secret'')) ''DOCBASE_DOMAIN'' = None" by simp
  have b: "console_error (startup (Map.empty(''DOCBASE_TOKEN'' \<mapsto> ''secret'')) None)
       = [Line domain_missing_message]"
    by (simp add: startup_def env_falsy_def)
  show ?thesis
    using missing_environment_exits
      [where env = "Map.empty(''DOCBASE_TOKEN'' \<mapsto> ''secret'')" and connect_failure = None] a b
    by simp
qed

text \<open>With both variables set and \<open>main\<close> not failing, the server runs.\<close>

lemma startup_with_environment:
  "env ''DOCBASE_TOKEN'' = Some t \<Longrightarrow> t \<noteq> [] \<Longrightarrow> env ''DOCBASE_DOMAIN'' = Some d \<Longrightarrow> d \<noteq> [] \<Longrightarrow>
     startup env None =
       \<lparr>console_error = [],
        console_info = [Line ''Docbase MCP Server running on stdin/stdout''],
        exit_code = None, server_constructed = True, server_connected = True\<rparr>"
  by (simp add: startup_def env_falsy_def)

end
